theory Spec2Isabelle
  imports Main
begin

section \<open>JavaScript values\<close>

text \<open>
  The components are TypeScript functions over plain JavaScript objects.  A value is
  \<open>undefined\<close>, \<open>null\<close>, a boolean, a number, a string, an array or an object.  Numbers
  are modelled as integers (pixel sizes, line widths and lengths); non-integral doubles
  and \<open>NaN\<close> are outside the model.  A property that is absent reads as \<open>undefined\<close>.
\<close>

datatype jsval =
    JUndefined
  | JNull
  | JBool bool
  | JNum int
  | JStr string
  | JArr "jsval list"
  | JObj "(string \<times> jsval) list"

type_synonym props = "string \<rightharpoonup> jsval"

type_synonym object_literal = "(string \<times> jsval) list"

definition get :: "props \<Rightarrow> string \<Rightarrow> jsval" where
  \<comment> \<open>the property read \<open>_props.k\<close>\<close>
  "get p k = (case p k of None \<Rightarrow> JUndefined | Some v \<Rightarrow> v)"

fun truthy :: "jsval \<Rightarrow> bool" where
  "truthy JUndefined = False"
| "truthy JNull = False"
| "truthy (JBool b) = b"
| "truthy (JNum n) = (n \<noteq> 0)"
| "truthy (JStr s) = (s \<noteq> [])"
| "truthy (JArr xs) = True"
| "truthy (JObj kvs) = True"

definition js_or :: "jsval \<Rightarrow> jsval \<Rightarrow> jsval" where
  \<comment> \<open>\<open>a || b\<close>\<close>
  "js_or a b = (if truthy a then a else b)"

definition js_not :: "jsval \<Rightarrow> jsval" where
  \<comment> \<open>\<open>!a\<close>\<close>
  "js_not a = JBool (\<not> truthy a)"

definition digit :: "nat \<Rightarrow> char" where
  "digit d = char_of (48 + d)"

fun show_nat :: "nat \<Rightarrow> string" where
  "show_nat n = (if n < 10 then [digit n] else show_nat (n div 10) @ [digit (n mod 10)])"

declare show_nat.simps [simp del]

definition show_int :: "int \<Rightarrow> string" where
  "show_int i = (if i < 0 then CHR ''-'' # show_nat (nat (- i)) else show_nat (nat i))"

fun join :: "string \<Rightarrow> string list \<Rightarrow> string" where
  \<comment> \<open>\<open>Array.prototype.join\<close> on the elements' strings\<close>
  "join sep [] = []"
| "join sep [x] = x"
| "join sep (x # y # ys) = x @ sep @ join sep (y # ys)"

fun to_string :: "jsval \<Rightarrow> string" where
  \<comment> \<open>the conversion of a template literal \<open>`${v}`\<close>\<close>
  "to_string JUndefined = ''undefined''"
| "to_string JNull = ''null''"
| "to_string (JBool b) = (if b then ''true'' else ''false'')"
| "to_string (JNum n) = show_int n"
| "to_string (JStr s) = s"
| "to_string (JArr xs) =
     join '','' (map (\<lambda>x. if x = JUndefined \<or> x = JNull then [] else to_string x) xs)"
| "to_string (JObj kvs) = ''[object Object]''"

fun jsonify :: "jsval \<Rightarrow> jsval" where
  \<comment> \<open>what \<open>JSON.stringify\<close> writes for a value: an \<open>undefined\<close> array element becomes
      \<open>null\<close>, an \<open>undefined\<close> property is left out\<close>
  "jsonify (JArr xs) = JArr (map (\<lambda>x. if x = JUndefined then JNull else jsonify x) xs)"
| "jsonify (JObj kvs) =
     JObj (map (\<lambda>(k, v). (k, jsonify v)) (filter (\<lambda>(k, v). v \<noteq> JUndefined) kvs))"
| "jsonify v = v"

definition JSON_stringify :: "object_literal \<Rightarrow> object_literal" where
  \<comment> \<open>The script's text content, as the sequence of members \<open>JSON.stringify\<close> writes for
      the payload object: the properties in order, those whose value is \<open>undefined\<close>
      omitted.\<close>
  "JSON_stringify kvs =
     map (\<lambda>(k, v). (k, jsonify v)) (filter (\<lambda>(k, v). v \<noteq> JUndefined) kvs)"

definition array_join :: "string \<Rightarrow> jsval list \<Rightarrow> string" where
  \<comment> \<open>\<open>xs.join(sep)\<close>: \<open>undefined\<close> and \<open>null\<close> elements are written as the empty string\<close>
  "array_join sep xs =
     join sep (map (\<lambda>x. if x = JUndefined \<or> x = JNull then [] else to_string x) xs)"

definition index :: "object_literal \<Rightarrow> jsval \<Rightarrow> jsval" where
  \<comment> \<open>the lookup \<open>table[key]\<close> in one of the mapping tables: the key is converted to a
      string, a missing entry reads as \<open>undefined\<close> (properties inherited from
      \<open>Object.prototype\<close> are not modelled)\<close>
  "index tbl key = (case map_of tbl (to_string key) of None \<Rightarrow> JUndefined | Some v \<Rightarrow> v)"

datatype error = TypeError | RangeError

fun map_result :: "('a \<Rightarrow> error + 'b) \<Rightarrow> 'a list \<Rightarrow> error + 'b list" where
  "map_result f [] = Inr []"
| "map_result f (x # xs) =
     (case f x of
        Inl e \<Rightarrow> Inl e
      | Inr y \<Rightarrow> (case map_result f xs of Inl e \<Rightarrow> Inl e | Inr ys \<Rightarrow> Inr (y # ys)))"

definition array_map :: "(jsval \<Rightarrow> error + jsval) \<Rightarrow> jsval \<Rightarrow> error + jsval" where
  \<comment> \<open>\<open>v.map(f)\<close>: only an array has the method, on any other value the call throws\<close>
  "array_map f v =
     (case v of
        JArr xs \<Rightarrow> (case map_result f xs of Inl e \<Rightarrow> Inl e | Inr ys \<Rightarrow> Inr (JArr ys))
      | _ \<Rightarrow> Inl TypeError)"

fun split :: "char \<Rightarrow> string \<Rightarrow> string list" where
  \<comment> \<open>\<open>s.split(c)\<close> for a one-character separator\<close>
  "split c [] = [[]]"
| "split c (x # xs) =
     (if x = c then [] # split c xs
      else (case split c xs of [] \<Rightarrow> [[x]] | part # parts \<Rightarrow> (x # part) # parts))"

definition has_key :: "object_literal \<Rightarrow> string \<Rightarrow> bool" where
  "has_key kvs k = (k \<in> set (map fst kvs))"


section \<open>Default props\<close>

definition mergeProps :: "props \<Rightarrow> props \<Rightarrow> props" where
  \<comment> \<open>solid-js \<open>mergeProps(defaults, props)\<close>: a property reads from the last source in
      which its value is not \<open>undefined\<close>\<close>
  "mergeProps defaults p =
     (\<lambda>k. case p k of
            None \<Rightarrow> defaults k
          | Some v \<Rightarrow> if v = JUndefined then defaults k else Some v)"


section \<open>Dimensions\<close>

text \<open>
  Nine components compute \<open>fullWidth = _props.autosize || _props.width === "full"\<close> (and the
  same for the height), style the container and the widget root with
  \<open>full ? "100%" : `${size}px`\<close>, and send \<open>full ? "100%" : size\<close> to the vendor.  AdvancedChart
  tests \<open>autosize\<close> alone; SingleTicker and SymbolInfo have a width only and no \<open>autosize\<close>.
\<close>

definition full :: "jsval \<Rightarrow> jsval \<Rightarrow> jsval" where
  "full autosize sz = js_or autosize (JBool (sz = JStr ''full''))"

definition css_size :: "jsval \<Rightarrow> jsval \<Rightarrow> string" where
  "css_size fullSize sz = (if truthy fullSize then ''100%'' else to_string sz @ ''px'')"

definition wire_size :: "jsval \<Rightarrow> jsval \<Rightarrow> jsval" where
  "wire_size fullSize sz = (if truthy fullSize then JStr ''100%'' else sz)"

definition fullWidth :: "props \<Rightarrow> jsval" where
  "fullWidth p = full (get p ''autosize'') (get p ''width'')"

definition fullHeight :: "props \<Rightarrow> jsval" where
  "fullHeight p = full (get p ''autosize'') (get p ''height'')"

record box =
  style_width :: "string option"
  style_height :: "string option"

definition sized_styles :: "props \<Rightarrow> box \<times> box \<Rightarrow> box \<times> box" where
  \<comment> \<open>the four style assignments, on the container and on the widget root\<close>
  "sized_styles p = (\<lambda>(container, widgetRoot).
     (container\<lparr>style_width := Some (css_size (fullWidth p) (get p ''width'')),
                style_height := Some (css_size (fullHeight p) (get p ''height''))\<rparr>,
      widgetRoot\<lparr>style_width := Some (css_size (fullWidth p) (get p ''width'')),
                 style_height := Some (css_size (fullHeight p) (get p ''height''))\<rparr>))"


section \<open>Enumerations and mapping tables\<close>

text \<open>
  A TypeScript union of string literals is the list of its declared values, in the order
  of the declaration; a table \<open>Record<T, string>\<close> is the object literal the source writes.
\<close>

definition ScaleMode :: "string list" where
  \<comment> \<open>type ScaleMode\<close>
  "ScaleMode =
     [''normal'',
      ''percentage'',
      ''logarithmic'']"

definition ChartType :: "string list" where
  \<comment> \<open>type ChartType\<close>
  "ChartType =
     [''area'',
      ''line'',
      ''bar'',
      ''candlestick'']"

definition ValueTrackingMode :: "string list" where
  \<comment> \<open>type ValueTrackingMode\<close>
  "ValueTrackingMode =
     [''floating_tooltip'',
      ''colored_tooltip'',
      ''legend'',
      ''scale_labels'']"

definition LineType :: "string list" where
  \<comment> \<open>type LineType\<close>
  "LineType =
     [''simple'',
      ''curved'',
      ''stepLine'']"

definition TimeFormat :: "string list" where
  \<comment> \<open>type TimeFormat\<close>
  "TimeFormat =
     [''12h'',
      ''24h'']"

definition ScaleModeMap :: object_literal where
  \<comment> \<open>const ScaleModeMap\<close>
  "ScaleModeMap =
     [(''normal'', JStr ''Normal''),
      (''percentage'', JStr ''Percentage''),
      (''logarithmic'', JStr ''Logarithmic'')]"

definition ChartTypeMap :: object_literal where
  \<comment> \<open>const ChartTypeMap\<close>
  "ChartTypeMap =
     [(''area'', JStr ''area''),
      (''line'', JStr ''line''),
      (''bar'', JStr ''bars''),
      (''candlestick'', JStr ''candlesticks'')]"

definition ValueTrackingModeMap :: object_literal where
  \<comment> \<open>const ValueTrackingModeMap\<close>
  "ValueTrackingModeMap =
     [(''floating_tooltip'', JStr ''1''),
      (''colored_tooltip'', JStr ''2''),
      (''legend'', JStr ''3''),
      (''scale_labels'', JStr ''0'')]"

definition LineTypeMap :: object_literal where
  \<comment> \<open>const LineTypeMap\<close>
  "LineTypeMap =
     [(''simple'', JNum 0),
      (''curved'', JNum 2),
      (''stepLine'', JNum 1)]"

definition TimeFormatMap :: object_literal where
  \<comment> \<open>const TimeFormatMap\<close>
  "TimeFormatMap =
     [(''12h'', JStr ''12-hours''),
      (''24h'', JStr ''24-hours'')]"

definition Country :: "string list" where
  \<comment> \<open>type Country\<close>
  "Country =
     [''United States'',
      ''Canada'',
      ''Austria'',
      ''Belgium'',
      ''Cyprus'',
      ''Czech Republic'',
      ''Denmark'',
      ''Estonia'',
      ''European Union'',
      ''Finland'',
      ''France'',
      ''Germany'',
      ''Greece'',
      ''Hungary'',
      ''Iceland'',
      ''Ireland'',
      ''Italy'',
      ''Latvia'',
      ''Lithuania'',
      ''Luxembourg'',
      ''Netherlands'',
      ''Norway'',
      ''Poland'',
      ''Portugal'',
      ''Romania'',
      ''Russia'',
      ''Serbia'',
      ''Slovakia'',
      ''Spain'',
      ''Sweden'',
      ''Switzerland'',
      ''Ukraine'',
      ''United Kingdom'',
      ''Angola'',
      ''Bahrain'',
      ''Botswana'',
      ''Egypt'',
      ''Ethiopia'',
      ''Ghana'',
      ''Israel'',
      ''Kenya'',
      ''Kuwait'',
      ''Malawi'',
      ''Mauritius'',
      ''Morocco'',
      ''Mozambique'',
      ''Namibia'',
      ''Nigeria'',
      ''Oman'',
      ''Qatar'',
      ''Rwanda'',
      ''Saudi Arabia'',
      ''Seychelles'',
      ''South Africa'',
      ''Tanzania'',
      ''Tunisia'',
      ''Turkey'',
      ''Uganda'',
      ''United Arab Emirates'',
      ''Zambia'',
      ''Zimbabwe'',
      ''Argentina'',
      ''Brazil'',
      ''Chile'',
      ''Colombia'',
      ''Mexico'',
      ''Peru'',
      ''Venezuela'',
      ''Australia'',
      ''Bangladesh'',
      ''China'',
      ''Hong Kong'',
      ''India'',
      ''Indonesia'',
      ''Japan'',
      ''South Korea'',
      ''Sri Lanka'',
      ''Malaysia'',
      ''New Zealand'',
      ''Pakistan'',
      ''Philippines'',
      ''Singapore'',
      ''Taiwan'',
      ''Thailand'',
      ''Vietnam'']"

definition CountryMap :: object_literal where
  \<comment> \<open>const CountryMap\<close>
  "CountryMap =
     [(''United States'', JStr ''us''),
      (''Canada'', JStr ''ca''),
      (''Austria'', JStr ''at''),
      (''Belgium'', JStr ''be''),
      (''Cyprus'', JStr ''cy''),
      (''Czech Republic'', JStr ''cz''),
      (''Denmark'', JStr ''dk''),
      (''Estonia'', JStr ''ee''),
      (''European Union'', JStr ''eu''),
      (''Finland'', JStr ''fi''),
      (''France'', JStr ''fr''),
      (''Germany'', JStr ''de''),
      (''Greece'', JStr ''gr''),
      (''Hungary'', JStr ''hu''),
      (''Iceland'', JStr ''is''),
      (''Ireland'', JStr ''ie''),
      (''Italy'', JStr ''it''),
      (''Latvia'', JStr ''lv''),
      (''Lithuania'', JStr ''lt''),
      (''Luxembourg'', JStr ''lu''),
      (''Netherlands'', JStr ''nl''),
      (''Norway'', JStr ''no''),
      (''Poland'', JStr ''pl''),
      (''Portugal'', JStr ''pt''),
      (''Romania'', JStr ''ro''),
      (''Russia'', JStr ''ru''),
      (''Serbia'', JStr ''rs''),
      (''Slovakia'', JStr ''sk''),
      (''Spain'', JStr ''es''),
      (''Sweden'', JStr ''se''),
      (''Switzerland'', JStr ''ch''),
      (''Ukraine'', JStr ''ua''),
      (''United Kingdom'', JStr ''gb''),
      (''Angola'', JStr ''ao''),
      (''Bahrain'', JStr ''bh''),
      (''Botswana'', JStr ''bw''),
      (''Egypt'', JStr ''eg''),
      (''Ethiopia'', JStr ''et''),
      (''Ghana'', JStr ''gh''),
      (''Israel'', JStr ''il''),
      (''Kenya'', JStr ''ke''),
      (''Kuwait'', JStr ''kw''),
      (''Malawi'', JStr ''mw''),
      (''Mauritius'', JStr ''mu''),
      (''Morocco'', JStr ''ma''),
      (''Mozambique'', JStr ''mz''),
      (''Namibia'', JStr ''na''),
      (''Nigeria'', JStr ''ng''),
      (''Oman'', JStr ''om''),
      (''Qatar'', JStr ''qa''),
      (''Rwanda'', JStr ''rw''),
      (''Saudi Arabia'', JStr ''sa''),
      (''Seychelles'', JStr ''sc''),
      (''South Africa'', JStr ''za''),
      (''Tanzania'', JStr ''tz''),
      (''Tunisia'', JStr ''tn''),
      (''Turkey'', JStr ''tr''),
      (''Uganda'', JStr ''ug''),
      (''United Arab Emirates'', JStr ''ae''),
      (''Zambia'', JStr ''zm''),
      (''Zimbabwe'', JStr ''zw''),
      (''Argentina'', JStr ''ar''),
      (''Brazil'', JStr ''br''),
      (''Chile'', JStr ''cl''),
      (''Colombia'', JStr ''co''),
      (''Mexico'', JStr ''mx''),
      (''Peru'', JStr ''pe''),
      (''Venezuela'', JStr ''ve''),
      (''Australia'', JStr ''au''),
      (''Bangladesh'', JStr ''bd''),
      (''China'', JStr ''cn''),
      (''Hong Kong'', JStr ''hk''),
      (''India'', JStr ''in''),
      (''Indonesia'', JStr ''id''),
      (''Japan'', JStr ''jp''),
      (''South Korea'', JStr ''kr''),
      (''Sri Lanka'', JStr ''lk''),
      (''Malaysia'', JStr ''my''),
      (''New Zealand'', JStr ''nz''),
      (''Pakistan'', JStr ''pk''),
      (''Philippines'', JStr ''ph''),
      (''Singapore'', JStr ''sg''),
      (''Taiwan'', JStr ''tw''),
      (''Thailand'', JStr ''th''),
      (''Vietnam'', JStr ''vn'')]"

definition AdvancedChartIndicator :: "string list" where
  \<comment> \<open>type AdvancedChartIndicator\<close>
  "AdvancedChartIndicator =
     [''volume24h'',
      ''accumulationDistribution'',
      ''advanceDeclineLine'',
      ''advanceDeclineRatio'',
      ''advanceDeclineRatioBars'',
      ''arnaudLegouxMovingAverage'',
      ''aroon'',
      ''averageDayRange'',
      ''averageDirectionalIndex'',
      ''averageTrueRange'',
      ''awesomeOscillator'',
      ''balanceOfPower'',
      ''bbTrend'',
      ''bollingerBands'',
      ''bollingerBandsPercentB'',
      ''bollingerBandwidth'',
      ''bollingerBars'',
      ''bullBearPower'',
      ''chaikinMoneyFlow'',
      ''chaikinOscillator'',
      ''chandeKrollStop'',
      ''chandeMomentumOscillator'',
      ''chopZone'',
      ''choppinessIndex'',
      ''commodityChannelIndex'',
      ''connorsRsi'',
      ''coppockCurve'',
      ''correlationCoefficientBasic'',
      ''correlationCoefficient'',
      ''cumulativeVolumeDelta'',
      ''cumulativeVolumeIndex'',
      ''detrendedPriceOscillator'',
      ''directionalMovementIndex'',
      ''donchianChannels'',
      ''doubleEma'',
      ''easeOfMovement'',
      ''elderForceIndex'',
      ''envelope'',
      ''fisherTransform'',
      ''gaps'',
      ''historicalVolatility'',
      ''hullMovingAverage'',
      ''ichimokuCloud'',
      ''keltnerChannels'',
      ''klingerOscillator'',
      ''knowSureThing'',
      ''leastSquaresMovingAverage'',
      ''linearRegressionChannel'',
      ''maCross'',
      ''massIndex'',
      ''mcginleyDynamic'',
      ''median'',
      ''momentum'',
      ''moneyFlowIndex'',
      ''moonPhases'',
      ''movingAverageConvergenceDivergence'',
      ''movingAverageExponential'',
      ''movingAverageRibbon'',
      ''movingAverageSimple'',
      ''movingAverageWeighted'',
      ''multiTimePeriodCharts'',
      ''netVolume'',
      ''onBalanceVolume'',
      ''openInterest'',
      ''parabolicSar'',
      ''performance'',
      ''pivotPointsHighLow'',
      ''pivotPointsStandard'',
      ''priceOscillator'',
      ''priceTarget'',
      ''priceVolumeTrendBasic'',
      ''priceVolumeTrend'',
      ''rankCorrelationIndex'',
      ''rateOfChange'',
      ''rciRibbon'',
      ''relativeStrengthIndex'',
      ''relativeVigorIndex'',
      ''relativeVolatilityIndex'',
      ''relativeVolumeAtTime'',
      ''robBookerIntradayPivotPoints'',
      ''robBookerKnoxvilleDivergence'',
      ''robBookerMissedPivotPoints'',
      ''robBookerReversal'',
      ''robBookerZivGhostPivots'',
      ''rsiDivergenceIndicator'',
      ''seasonality'',
      ''smiErgodicIndicator'',
      ''smiErgodicOscillator'',
      ''smoothedMovingAverage'',
      ''stochastic'',
      ''stochasticMomentumIndex'',
      ''stochasticRsi'',
      ''supertrend'',
      ''technicalRatings'',
      ''timeWeightedAveragePrice'',
      ''tradingSessions'',
      ''trendStrengthIndex'',
      ''tripleEma'',
      ''trix'',
      ''trueStrengthIndex'',
      ''ultimateOscillator'',
      ''upDownVolume'',
      ''visibleAveragePrice'',
      ''volatilityStop'',
      ''volume'',
      ''volumeDelta'',
      ''volumeOscillator'',
      ''volumeWeightedAveragePrice'',
      ''volumeWeightedMovingAverage'',
      ''vortexIndicator'',
      ''williamsAlligator'',
      ''williamsFractals'',
      ''williamsPercentRange'',
      ''woodiesCci'',
      ''zigZag'']"

definition IndicatorMap :: object_literal where
  \<comment> \<open>const IndicatorMap\<close>
  "IndicatorMap =
     [(''volume24h'', JStr ''STD;24h%Volume''),
      (''accumulationDistribution'', JStr ''STD;Accumulation_Distribution''),
      (''advanceDeclineLine'', JStr ''STD;Advance%1Decline%1Line''),
      (''advanceDeclineRatio'', JStr ''STD;Advance%1Decline%1Ratio''),
      (''advanceDeclineRatioBars'', JStr ''STD;Advance_Decline_Ratio_Bars''),
      (''arnaudLegouxMovingAverage'', JStr ''STD;Arnaud%1Legoux%1Moving%1Average''),
      (''aroon'', JStr ''STD;Aroon''),
      (''averageDayRange'', JStr ''STD;Average%Day%Range''),
      (''averageDirectionalIndex'', JStr ''STD;Average%1Directional%1Index''),
      (''averageTrueRange'', JStr ''STD;Average_True_Range''),
      (''awesomeOscillator'', JStr ''STD;Awesome_Oscillator''),
      (''balanceOfPower'', JStr ''STD;Balance%1of%1Power''),
      (''bbTrend'', JStr ''STD;BBTrend''),
      (''bollingerBands'', JStr ''STD;Bollinger_Bands''),
      (''bollingerBandsPercentB'', JStr ''STD;Bollinger_Bands_B''),
      (''bollingerBandwidth'', JStr ''STD;Bollinger_Bands_Width''),
      (''bollingerBars'', JStr ''STD;Bollinger%1Bars''),
      (''bullBearPower'', JStr ''STD;Bull%Bear%Power''),
      (''chaikinMoneyFlow'', JStr ''STD;Chaikin_Money_Flow''),
      (''chaikinOscillator'', JStr ''STD;Chaikin_Oscillator''),
      (''chandeKrollStop'', JStr ''STD;Chande%1Kroll%1Stop''),
      (''chandeMomentumOscillator'', JStr ''STD;Chande_Momentum_Oscillator''),
      (''chopZone'', JStr ''STD;Chop%1Zone''),
      (''choppinessIndex'', JStr ''STD;Choppiness_Index''),
      (''commodityChannelIndex'', JStr ''STD;CCI''),
      (''connorsRsi'', JStr ''STD;Connors_RSI''),
      (''coppockCurve'', JStr ''STD;Coppock%1Curve''),
      (''correlationCoefficientBasic'', JStr ''CorrelationCoefficient@tv-basicstudies''),
      (''correlationCoefficient'', JStr ''STD;Correlation_Coeff''),
      (''cumulativeVolumeDelta'', JStr ''STD;Cumulative%1Volume%1Delta''),
      (''cumulativeVolumeIndex'', JStr ''STD;Cumulative%1Volume%1Index''),
      (''detrendedPriceOscillator'', JStr ''STD;DPO''),
      (''directionalMovementIndex'', JStr ''STD;DMI''),
      (''donchianChannels'', JStr ''STD;Donchian_Channels''),
      (''doubleEma'', JStr ''STD;DEMA''),
      (''easeOfMovement'', JStr ''STD;EOM''),
      (''elderForceIndex'', JStr ''STD;EFI''),
      (''envelope'', JStr ''STD;ENV''),
      (''fisherTransform'', JStr ''STD;Fisher_Transform''),
      (''gaps'', JStr ''STD;Gaps''),
      (''historicalVolatility'', JStr ''STD;Historical_Volatility''),
      (''hullMovingAverage'', JStr ''STD;Hull%1MA''),
      (''ichimokuCloud'', JStr ''STD;Ichimoku%1Cloud''),
      (''keltnerChannels'', JStr ''STD;Keltner_Channels''),
      (''klingerOscillator'', JStr ''STD;Klinger%1Oscillator''),
      (''knowSureThing'', JStr ''STD;Know_Sure_Thing''),
      (''leastSquaresMovingAverage'', JStr ''STD;Least%1Squares%1Moving%1Average''),
      (''linearRegressionChannel'', JStr ''STD;Linear_Regression''),
      (''maCross'', JStr ''STD;MA%1Cross''),
      (''massIndex'', JStr ''STD;Mass%1Index''),
      (''mcginleyDynamic'', JStr ''STD;McGinley%1Dynamic''),
      (''median'', JStr ''STD;Median''),
      (''momentum'', JStr ''STD;Momentum''),
      (''moneyFlowIndex'', JStr ''STD;Money_Flow''),
      (''moonPhases'', JStr ''MoonPhases@tv-basicstudies''),
      (''movingAverageConvergenceDivergence'', JStr ''STD;MACD''),
      (''movingAverageExponential'', JStr ''STD;EMA''),
      (''movingAverageRibbon'', JStr ''STD;MA%Ribbon''),
      (''movingAverageSimple'', JStr ''STD;SMA''),
      (''movingAverageWeighted'', JStr ''STD;WMA''),
      (''multiTimePeriodCharts'', JStr ''STD;Multi-Time%Period%Charts''),
      (''netVolume'', JStr ''STD;Net%1Volume''),
      (''onBalanceVolume'', JStr ''STD;On_Balance_Volume''),
      (''openInterest'', JStr ''STD;Open%Interest''),
      (''parabolicSar'', JStr ''STD;PSAR''),
      (''performance'', JStr ''STD;Performance''),
      (''pivotPointsHighLow'', JStr ''STD;Pivot%1Points%1High%1Low''),
      (''pivotPointsStandard'', JStr ''STD;Pivot%1Points%1Standard''),
      (''priceOscillator'', JStr ''STD;Price_Oscillator''),
      (''priceTarget'', JStr ''STD;Price%1Target''),
      (''priceVolumeTrendBasic'', JStr ''PriceVolumeTrend@tv-basicstudies''),
      (''priceVolumeTrend'', JStr ''STD;Price_Volume_Trend''),
      (''rankCorrelationIndex'', JStr ''STD;Rank_Correlation_Index''),
      (''rateOfChange'', JStr ''STD;ROC''),
      (''rciRibbon'', JStr ''STD;RCI_Ribbon''),
      (''relativeStrengthIndex'', JStr ''STD;RSI''),
      (''relativeVigorIndex'', JStr ''STD;Relative_Vigor_Index''),
      (''relativeVolatilityIndex'', JStr ''STD;Relative_Volatility_Index''),
      (''relativeVolumeAtTime'', JStr ''STD;Relative%1Volume%1at%1Time''),
      (''robBookerIntradayPivotPoints'', JStr ''BookerIntradayPivots@tv-basicstudies''),
      (''robBookerKnoxvilleDivergence'', JStr ''BookerKnoxvilleDivergence@tv-basicstudies''),
      (''robBookerMissedPivotPoints'', JStr ''BookerMissedPivots@tv-basicstudies''),
      (''robBookerReversal'', JStr ''BookerReversal@tv-basicstudies''),
      (''robBookerZivGhostPivots'', JStr ''STD;Rob%1Booker%1Ghost%1Pivots%1v2''),
      (''rsiDivergenceIndicator'', JStr ''STD;Divergence%1Indicator''),
      (''seasonality'', JStr ''STD;Seasonality''),
      (''smiErgodicIndicator'', JStr ''STD;SMI_Ergodic_Indicator_Oscillator''),
      (''smiErgodicOscillator'', JStr ''STD;SMI_Ergodic_Oscillator''),
      (''smoothedMovingAverage'', JStr ''STD;Smoothed%1Moving%1Average''),
      (''stochastic'', JStr ''STD;Stochastic''),
      (''stochasticMomentumIndex'', JStr ''STD;SMI''),
      (''stochasticRsi'', JStr ''STD;Stochastic_RSI''),
      (''supertrend'', JStr ''STD;Supertrend''),
      (''technicalRatings'', JStr ''STD;Technical%1Ratings''),
      (''timeWeightedAveragePrice'', JStr ''STD;Time%1Weighted%1Average%1Price''),
      (''tradingSessions'', JStr ''STD;Trading%1Sessions''),
      (''trendStrengthIndex'', JStr ''STD;Trend%1Strength%1Index''),
      (''tripleEma'', JStr ''STD;TEMA''),
      (''trix'', JStr ''STD;TRIX''),
      (''trueStrengthIndex'', JStr ''STD;True%1Strength%1Indicator''),
      (''ultimateOscillator'', JStr ''STD;Ultimate_Oscillator''),
      (''upDownVolume'', JStr ''STD;UP_DOWN_Volume''),
      (''visibleAveragePrice'', JStr ''STD;Visible%1Average%1Price''),
      (''volatilityStop'', JStr ''STD;Volatility_Stop''),
      (''volume'', JStr ''Volume@tv-basicstudies''),
      (''volumeDelta'', JStr ''STD;Volume%1Delta''),
      (''volumeOscillator'', JStr ''STD;Volume%1Oscillator''),
      (''volumeWeightedAveragePrice'', JStr ''STD;VWAP''),
      (''volumeWeightedMovingAverage'', JStr ''STD;VWMA''),
      (''vortexIndicator'', JStr ''STD;Vortex%1Indicator''),
      (''williamsAlligator'', JStr ''STD;Williams_Alligator''),
      (''williamsFractals'', JStr ''STD;Whilliams_Fractals''),
      (''williamsPercentRange'', JStr ''STD;Willams_R''),
      (''woodiesCci'', JStr ''STD;Woodies%1CCI''),
      (''zigZag'', JStr ''STD;Zig_Zag'')]"

section \<open>The widget components\<close>

text \<open>
  The twelve components have one shape: \<open>mergeProps\<close> of a defaults object and the
  caller's props, and an effect that creates a widget root, styles the container and the
  root, and hands the vendor's script URL and the JSON text of a payload object to
  \<open>loadScript\<close>.  A component is described by these four parts; the effect itself is
  modelled once, in the next section.  A payload whose evaluation can throw returns a sum.
\<close>

record widget =
  url :: string
  defaults :: props
  styles :: "props \<Rightarrow> box \<times> box \<Rightarrow> box \<times> box"
  payload :: "props \<Rightarrow> error + object_literal"

definition width_styles :: "props \<Rightarrow> box \<times> box \<Rightarrow> box \<times> box" where
  \<comment> \<open>SingleTicker and SymbolInfo set the width only, and have no \<open>autosize\<close>\<close>
  "width_styles p = (\<lambda>(container, widgetRoot).
     (container\<lparr>style_width :=
        Some (if get p ''width'' = JStr ''full'' then ''100%'' else to_string (get p ''width'') @ ''px'')\<rparr>,
      widgetRoot\<lparr>style_width :=
        Some (if get p ''width'' = JStr ''full'' then ''100%'' else to_string (get p ''width'') @ ''px'')\<rparr>))"

subsection \<open>MiniChart\<close>

definition MiniChart_defaults :: props where
  "MiniChart_defaults = map_of
     [(''width'', JStr ''full''),
      (''height'', JStr ''full''),
      (''locale'', JStr ''en''),
      (''colorTheme'', JStr ''light''),
      (''dateRange'', JStr ''1M''),
      (''autosize'', JBool True),
      (''isTransparent'', JBool False),
      (''chartOnly'', JBool False),
      (''noTimeScale'', JBool False)]"

definition MiniChart_payload :: "props \<Rightarrow> object_literal" where
  "MiniChart_payload p =
     [(''symbol'', get p ''symbol''),
      (''autosize'', get p ''autosize''),
      (''width'', wire_size (fullWidth p) (get p ''width'')),
      (''height'', wire_size (fullHeight p) (get p ''height'')),
      (''locale'', get p ''locale''),
      (''colorTheme'', get p ''colorTheme''),
      (''dateRange'', get p ''dateRange''),
      (''trendLineColor'', get p ''trendLineColor''),
      (''underLineColor'', get p ''underLineColor''),
      (''underLineBottomColor'', get p ''underLineBottomColor''),
      (''isTransparent'', get p ''isTransparent''),
      (''chartOnly'', get p ''chartOnly''),
      (''noTimeScale'', get p ''noTimeScale'')]"

definition MiniChart :: widget where
  "MiniChart =
     \<lparr>url = ''https://s3.tradingview.com/external-embedding/embed-widget-mini-symbol-overview.js'',
      defaults = MiniChart_defaults,
      styles = sized_styles,
      payload = (\<lambda>p. Inr (MiniChart_payload p))\<rparr>"

subsection \<open>SymbolOverview\<close>

definition SymbolOverview_defaults :: props where
  "SymbolOverview_defaults = map_of
     [(''width'', JStr ''full''),
      (''height'', JStr ''full''),
      (''locale'', JStr ''en''),
      (''scaleMode'', JStr ''normal''),
      (''scalePosition'', JStr ''right''),
      (''colorTheme'', JStr ''light''),
      (''chartType'', JStr ''line''),
      (''valueTrackingMode'', JStr ''floating_tooltip''),
      (''lineType'', JStr ''simple''),
      (''headerFontSize'', JStr ''small''),
      (''changeMode'', JStr ''price-and-percent''),
      (''timeFormat'', JStr ''12h''),
      (''lineWidth'', JNum 2),
      (''showHeader'', JBool True),
      (''showSymbolLogo'', JBool True),
      (''showMarketStatus'', JBool True),
      (''showDateRanges'', JBool True),
      (''fontSize'', JNum 10),
      (''autosize'', JBool True),
      (''showTimeScale'', JBool True),
      (''isTransparent'', JBool False),
      (''chartOnly'', JBool False),
      (''showVolume'', JBool False),
      (''showMA'', JBool False),
      (''maLineColor'', JStr ''blue''),
      (''maLineWidth'', JNum 1),
      (''maLength'', JNum 9)]"

definition SymbolOverview_symbol :: "jsval \<Rightarrow> error + jsval" where
  \<comment> \<open>the callback of \<open>_props.symbols.map\<close>; \<open>split\<close> is a method of strings only\<close>
  "SymbolOverview_symbol symbol =
     (case symbol of
        JStr s \<Rightarrow>
          (let parts = split CHR '':'' s;
               displayName = (if length parts > 1 then parts ! 1 else s)
           in Inr (JArr [JStr displayName, JStr (s @ ''|1D'')]))
      | _ \<Rightarrow> Inl TypeError)"

definition SymbolOverview_object :: "props \<Rightarrow> jsval \<Rightarrow> object_literal" where
  \<comment> \<open>the object literal, given the value of \<open>_props.symbols.map(...)\<close>\<close>
  "SymbolOverview_object p symbols =
     [(''autosize'', get p ''autosize''),
      (''width'', wire_size (fullWidth p) (get p ''width'')),
      (''height'', wire_size (fullHeight p) (get p ''height'')),
      (''locale'', get p ''locale''),
      (''noTimeScale'', js_not (get p ''showTimeScale'')),
      (''colorTheme'', get p ''colorTheme''),
      (''scalePosition'', get p ''scalePosition''),
      (''scaleMode'', index ScaleModeMap (get p ''scaleMode'')),
      (''lineWidth'', get p ''lineWidth''),
      (''lineType'', index LineTypeMap (get p ''lineType'')),
      (''chartType'', index ChartTypeMap (get p ''chartType'')),
      (''valuesTracking'', index ValueTrackingModeMap (get p ''valueTrackingMode'')),
      (''timeHoursFormat'', index TimeFormatMap (get p ''timeFormat'')),
      (''headerFontSize'', get p ''headerFontSize''),
      (''hideDateRanges'', js_not (get p ''showDateRanges'')),
      (''hideMarketStatus'', js_not (get p ''showMarketStatus'')),
      (''hideSymbolLogo'', js_not (get p ''showSymbolLogo'')),
      (''fontSize'', get p ''fontSize''),
      (''fontColor'', get p ''fontColor''),
      (''showVolume'', get p ''showVolume''),
      (''volumeUpColor'', get p ''volumeUpColor''),
      (''volumeDownColor'', get p ''volumeDownColor''),
      (''showMA'', get p ''showMA''),
      (''maLineColor'', get p ''maLineColor''),
      (''maLineWidth'', get p ''maLineWidth''),
      (''maLength'', get p ''maLength''),
      (''symbols'', symbols),
      (''chartOnly'', js_not (get p ''showHeader'')),
      (''trendLineColor'', get p ''trendLineColor''),
      (''underLineColor'', get p ''underLineColor''),
      (''underLineBottomColor'', get p ''underLineBottomColor''),
      (''isTransparent'', get p ''isTransparent''),
      (''color'', get p ''color''),
      (''lineColor'', get p ''lineColor''),
      (''topColor'', get p ''topColor''),
      (''bottomColor'', get p ''bottomColor''),
      (''upColor'', get p ''upColor''),
      (''downColor'', get p ''downColor''),
      (''borderUpColor'', get p ''borderUpColor''),
      (''borderDownColor'', get p ''borderDownColor''),
      (''wickUpColor'', get p ''wickUpColor''),
      (''wickDownColor'', get p ''wickDownColor''),
      (''gridLineColor'', get p ''gridLineColor''),
      (''widgetFontColor'', get p ''widgetFontColor''),
      (''backgroundColor'', get p ''backgroundColor''),
      (''changeMode'', get p ''changeMode''),
      (''dateRanges'', JArr [JStr ''1d|1'', JStr ''1m|30'', JStr ''3m|60'', JStr ''12m|1D'', JStr ''60m|1W'', JStr ''all|1M''])]"

definition SymbolOverview_payload :: "props \<Rightarrow> error + object_literal" where
  "SymbolOverview_payload p =
     (case array_map SymbolOverview_symbol (get p ''symbols'') of
        Inl e \<Rightarrow> Inl e
      | Inr symbols \<Rightarrow> Inr (SymbolOverview_object p symbols))"

definition SymbolOverview :: widget where
  "SymbolOverview =
     \<lparr>url = ''https://s3.tradingview.com/external-embedding/embed-widget-symbol-overview.js'',
      defaults = SymbolOverview_defaults,
      styles = sized_styles,
      payload = SymbolOverview_payload\<rparr>"

subsection \<open>AdvancedChart\<close>

definition AdvancedChart_defaults :: props where
  "AdvancedChart_defaults = map_of
     [(''width'', JNum 400),
      (''height'', JNum 300),
      (''locale'', JStr ''en''),
      (''colorTheme'', JStr ''light''),
      (''interval'', JStr ''1''),
      (''timezone'', JStr ''Etc/UTC''),
      (''chartStyle'', JStr ''candles''),
      (''indicators'', JArr []),
      (''watchlist'', JArr []),
      (''compareSymbols'', JArr []),
      (''autosize'', JBool True),
      (''allowSymbolChange'', JBool True),
      (''showBottomToolbar'', JBool False),
      (''showDetails'', JBool False),
      (''showDrawingToolsBar'', JBool True),
      (''showHotlist'', JBool False),
      (''showSaveImageButton'', JBool False),
      (''showSymbolDescription'', JBool True),
      (''showTopToolbar'', JBool True),
      (''showVolume'', JBool True)]"

definition AdvancedChart_object :: "props \<Rightarrow> jsval \<Rightarrow> object_literal" where
  \<comment> \<open>the object literal, given the value of \<open>_props.indicators.map(...)\<close>\<close>
  "AdvancedChart_object p studies =
     [(''symbol'', get p ''symbol''),
      (''width'', (if truthy (get p ''autosize'') then JStr ''100%'' else get p ''width'')),
      (''height'', (if truthy (get p ''autosize'') then JStr ''100%'' else get p ''height'')),
      (''interval'', get p ''interval''),
      (''locale'', get p ''locale''),
      (''theme'', get p ''colorTheme''),
      (''timezone'', get p ''timezone''),
      (''style'', get p ''chartStyle''),
      (''backgroundColor'', get p ''backgroundColor''),
      (''gridColor'', get p ''gridColor''),
      (''studies'', studies),
      (''watchlist'', get p ''watchlist''),
      (''compare_symbols'', get p ''compareSymbols''),
      (''allow_symbol_change'', get p ''allowSymbolChange''),
      (''withdateranges'', get p ''showBottomToolbar''),
      (''details'', get p ''showDetails''),
      (''hide_side_toolbar'', js_not (get p ''showDrawingToolsBar'')),
      (''hotlist'', get p ''showHotlist''),
      (''save_image'', get p ''showSaveImageButton''),
      (''hide_legend'', js_not (get p ''showSymbolDescription'')),
      (''hide_top_toolbar'', js_not (get p ''showTopToolbar'')),
      (''hide_volume'', js_not (get p ''showVolume'')),
      (''support_host'', JStr ''https://www.tradingview.com'')]"

definition AdvancedChart_payload :: "props \<Rightarrow> error + object_literal" where
  "AdvancedChart_payload p =
     (case array_map (\<lambda>indicator. Inr (index IndicatorMap indicator)) (get p ''indicators'') of
        Inl e \<Rightarrow> Inl e
      | Inr studies \<Rightarrow> Inr (AdvancedChart_object p studies))"

definition AdvancedChart_styles :: "props \<Rightarrow> box \<times> box \<Rightarrow> box \<times> box" where
  "AdvancedChart_styles p = (\<lambda>(container, widgetRoot).
     (container\<lparr>style_width := Some (css_size (get p ''autosize'') (get p ''width'')),
                style_height := Some (css_size (get p ''autosize'') (get p ''height''))\<rparr>,
      widgetRoot\<lparr>style_width := Some (css_size (get p ''autosize'') (get p ''width'')),
                 style_height := Some (css_size (get p ''autosize'') (get p ''height''))\<rparr>))"

definition AdvancedChart :: widget where
  "AdvancedChart =
     \<lparr>url = ''https://s3.tradingview.com/external-embedding/embed-widget-advanced-chart.js'',
      defaults = AdvancedChart_defaults,
      styles = AdvancedChart_styles,
      payload = AdvancedChart_payload\<rparr>"

subsection \<open>EconomicCalendar\<close>

definition EconomicCalendar_defaults :: props where
  "EconomicCalendar_defaults = map_of
     [(''width'', JStr ''full''),
      (''height'', JStr ''full''),
      (''locale'', JStr ''en''),
      (''colorTheme'', JStr ''light''),
      (''countries'', JArr []),
      (''autosize'', JBool True),
      (''showHighImportanceOnly'', JBool False),
      (''isTransparent'', JBool False)]"

definition Set_add :: "jsval list \<Rightarrow> jsval \<Rightarrow> jsval list" where
  \<comment> \<open>a \<open>Set\<close> keeps its elements in insertion order; adding a member again changes
      nothing (members are compared as values, which is JavaScript's comparison for the
      strings of a \<open>Country[]\<close>)\<close>
  "Set_add s x = (if x \<in> set s then s else s @ [x])"

definition new_Set :: "jsval \<Rightarrow> error + jsval list" where
  \<comment> \<open>\<open>new Set(iterable)\<close> adds the elements in iteration order; \<open>undefined\<close> and \<open>null\<close>
      give the empty set, a string iterates its characters, anything else that is not
      iterable throws\<close>
  "new_Set iterable =
     (case iterable of
        JArr xs \<Rightarrow> Inr (foldl Set_add [] xs)
      | JUndefined \<Rightarrow> Inr []
      | JNull \<Rightarrow> Inr []
      | JStr s \<Rightarrow> Inr (foldl Set_add [] (map (\<lambda>c. JStr [c]) s))
      | _ \<Rightarrow> Inl TypeError)"

definition new_Array :: "jsval list \<Rightarrow> error + jsval list" where
  \<comment> \<open>\<open>new Array(...items)\<close>: a single numeric argument is a length, and the array has
      that many empty slots (written \<open>undefined\<close> here: \<open>CountryMap[undefined]\<close> is
      \<open>undefined\<close>, and \<open>join\<close> writes both as the empty string); any other argument
      list is the array of its items\<close>
  "new_Array items =
     (case items of
        [JNum n] \<Rightarrow>
          if 0 \<le> n \<and> n < 2 ^ 32 then Inr (replicate (nat n) JUndefined) else Inl RangeError
      | _ \<Rightarrow> Inr items)"

definition countries :: "props \<Rightarrow> error + jsval list" where
  \<comment> \<open>\<open>new Array(...new Set(_props.countries))\<close>\<close>
  "countries p =
     (case new_Set (get p ''countries'') of Inl e \<Rightarrow> Inl e | Inr s \<Rightarrow> new_Array s)"

definition countryFilter :: "jsval list \<Rightarrow> string" where
  \<comment> \<open>\<open>countries().map((country) => CountryMap[country]).join(",")\<close>\<close>
  "countryFilter cs = array_join '','' (map (index CountryMap) cs)"

definition EconomicCalendar_payload :: "props \<Rightarrow> error + object_literal" where
  "EconomicCalendar_payload p =
     (case countries p of
        Inl e \<Rightarrow> Inl e
      | Inr cs \<Rightarrow> Inr
         [(''autosize'', get p ''autosize''),
          (''width'', wire_size (fullWidth p) (get p ''width'')),
          (''height'', wire_size (fullHeight p) (get p ''height'')),
          (''locale'', get p ''locale''),
          (''colorTheme'', get p ''colorTheme''),
          (''importanceFilter'',
             if truthy (get p ''showHighImportanceOnly'') then JStr ''0,1'' else JStr ''-1,0,1''),
          (''isTransparent'', get p ''isTransparent''),
          (''countryFilter'', JStr (countryFilter cs))])"

definition EconomicCalendar :: widget where
  "EconomicCalendar =
     \<lparr>url = ''https://s3.tradingview.com/external-embedding/embed-widget-events.js'',
      defaults = EconomicCalendar_defaults,
      styles = sized_styles,
      payload = EconomicCalendar_payload\<rparr>"

subsection \<open>TopStories\<close>

definition TopStories_defaults :: props where
  "TopStories_defaults = map_of
     [(''width'', JStr ''full''),
      (''height'', JStr ''full''),
      (''locale'', JStr ''en''),
      (''colorTheme'', JStr ''light''),
      (''feedMode'', JStr ''all_symbols''),
      (''displayMode'', JStr ''adaptive''),
      (''autosize'', JBool True),
      (''isTransparent'', JBool False)]"

definition TopStories_widgetConfig :: "props \<Rightarrow> object_literal" where
  \<comment> \<open>the object literal, and the assignment \<open>widgetConfig.symbol = _props.symbol\<close> under
      \<open>if (_props.feedMode === "symbol")\<close>\<close>
  "TopStories_widgetConfig p =
     [(''width'', wire_size (fullWidth p) (get p ''width'')),
      (''height'', wire_size (fullHeight p) (get p ''height'')),
      (''locale'', get p ''locale''),
      (''colorTheme'', get p ''colorTheme''),
      (''feedMode'', get p ''feedMode''),
      (''displayMode'', get p ''displayMode''),
      (''isTransparent'', get p ''isTransparent'')]
     @ (if get p ''feedMode'' = JStr ''symbol'' then [(''symbol'', get p ''symbol'')] else [])"

definition TopStories :: widget where
  "TopStories =
     \<lparr>url = ''https://s3.tradingview.com/external-embedding/embed-widget-timeline.js'',
      defaults = TopStories_defaults,
      styles = sized_styles,
      payload = (\<lambda>p. Inr (TopStories_widgetConfig p))\<rparr>"

subsection \<open>Screener\<close>

definition Screener_defaults :: props where
  "Screener_defaults = map_of
     [(''width'', JStr ''full''),
      (''height'', JStr ''full''),
      (''locale'', JStr ''en''),
      (''colorTheme'', JStr ''light''),
      (''exchange'', JStr ''america''),
      (''defaultColumnView'', JStr ''overview''),
      (''defaultScreenView'', JStr ''most_capitalized''),
      (''autosize'', JBool True),
      (''isTransparent'', JBool False),
      (''showTopToolbar'', JBool True)]"

definition Screener_payload :: "props \<Rightarrow> object_literal" where
  "Screener_payload p =
     [(''width'', wire_size (fullWidth p) (get p ''width'')),
      (''height'', wire_size (fullHeight p) (get p ''height'')),
      (''locale'', get p ''locale''),
      (''colorTheme'', get p ''colorTheme''),
      (''isTransparent'', get p ''isTransparent''),
      (''showTopToolbar'', get p ''showTopToolbar''),
      (''market'', get p ''exchange''),
      (''defaultColumn'', get p ''defaultColumnView''),
      (''defaultScreen'', get p ''defaultScreenView'')]"

definition Screener :: widget where
  "Screener =
     \<lparr>url = ''https://s3.tradingview.com/external-embedding/embed-widget-screener.js'',
      defaults = Screener_defaults,
      styles = sized_styles,
      payload = (\<lambda>p. Inr (Screener_payload p))\<rparr>"

subsection \<open>CryptoMarket\<close>

definition CryptoMarket_defaults :: props where
  "CryptoMarket_defaults = map_of
     [(''width'', JStr ''full''),
      (''height'', JStr ''full''),
      (''locale'', JStr ''en''),
      (''colorTheme'', JStr ''light''),
      (''displayCurrency'', JStr ''USD''),
      (''autosize'', JBool True),
      (''isTransparent'', JBool False)]"

definition CryptoMarket_payload :: "props \<Rightarrow> object_literal" where
  "CryptoMarket_payload p =
     [(''screener_type'', JStr ''crypto_mkt''),
      (''width'', wire_size (fullWidth p) (get p ''width'')),
      (''height'', wire_size (fullHeight p) (get p ''height'')),
      (''locale'', get p ''locale''),
      (''colorTheme'', get p ''colorTheme''),
      (''displayCurrency'', get p ''displayCurrency''),
      (''isTransparent'', get p ''isTransparent'')]"

definition CryptoMarket :: widget where
  "CryptoMarket =
     \<lparr>url = ''https://s3.tradingview.com/external-embedding/embed-widget-screener.js'',
      defaults = CryptoMarket_defaults,
      styles = sized_styles,
      payload = (\<lambda>p. Inr (CryptoMarket_payload p))\<rparr>"

subsection \<open>FundamentalData\<close>

definition FundamentalData_defaults :: props where
  "FundamentalData_defaults = map_of
     [(''width'', JStr ''full''),
      (''height'', JStr ''full''),
      (''locale'', JStr ''en''),
      (''colorTheme'', JStr ''light''),
      (''displayMode'', JStr ''regular''),
      (''autosize'', JBool True),
      (''isTransparent'', JBool False)]"

definition FundamentalData_payload :: "props \<Rightarrow> object_literal" where
  "FundamentalData_payload p =
     [(''symbol'', get p ''symbol''),
      (''width'', wire_size (fullWidth p) (get p ''width'')),
      (''height'', wire_size (fullHeight p) (get p ''height'')),
      (''locale'', get p ''locale''),
      (''colorTheme'', get p ''colorTheme''),
      (''displayMode'', get p ''displayMode''),
      (''isTransparent'', get p ''isTransparent'')]"

definition FundamentalData :: widget where
  "FundamentalData =
     \<lparr>url = ''https://s3.tradingview.com/external-embedding/embed-widget-financials.js'',
      defaults = FundamentalData_defaults,
      styles = sized_styles,
      payload = (\<lambda>p. Inr (FundamentalData_payload p))\<rparr>"

subsection \<open>CompanyProfile\<close>

definition CompanyProfile_defaults :: props where
  "CompanyProfile_defaults = map_of
     [(''width'', JStr ''full''),
      (''height'', JStr ''full''),
      (''locale'', JStr ''en''),
      (''colorTheme'', JStr ''light''),
      (''autosize'', JBool True),
      (''isTransparent'', JBool False)]"

definition CompanyProfile_payload :: "props \<Rightarrow> object_literal" where
  "CompanyProfile_payload p =
     [(''symbol'', get p ''symbol''),
      (''width'', wire_size (fullWidth p) (get p ''width'')),
      (''height'', wire_size (fullHeight p) (get p ''height'')),
      (''locale'', get p ''locale''),
      (''colorTheme'', get p ''colorTheme''),
      (''isTransparent'', get p ''isTransparent'')]"

definition CompanyProfile :: widget where
  "CompanyProfile =
     \<lparr>url = ''https://s3.tradingview.com/external-embedding/embed-widget-symbol-profile.js'',
      defaults = CompanyProfile_defaults,
      styles = sized_styles,
      payload = (\<lambda>p. Inr (CompanyProfile_payload p))\<rparr>"

subsection \<open>TechnicalAnalysis\<close>

definition TechnicalAnalysis_defaults :: props where
  "TechnicalAnalysis_defaults = map_of
     [(''width'', JStr ''full''),
      (''height'', JStr ''full''),
      (''displayMode'', JStr ''single''),
      (''locale'', JStr ''en''),
      (''colorTheme'', JStr ''light''),
      (''interval'', JStr ''5m''),
      (''autosize'', JBool True),
      (''showIntervalTabs'', JBool False),
      (''isTransparent'', JBool False)]"

definition TechnicalAnalysis_payload :: "props \<Rightarrow> object_literal" where
  "TechnicalAnalysis_payload p =
     [(''symbol'', get p ''symbol''),
      (''width'', wire_size (fullWidth p) (get p ''width'')),
      (''height'', wire_size (fullHeight p) (get p ''height'')),
      (''interval'', get p ''interval''),
      (''showIntervalTabs'', get p ''showIntervalTabs''),
      (''displayMode'', get p ''displayMode''),
      (''locale'', get p ''locale''),
      (''colorTheme'', get p ''colorTheme''),
      (''isTransparent'', get p ''isTransparent'')]"

definition TechnicalAnalysis :: widget where
  "TechnicalAnalysis =
     \<lparr>url = ''https://s3.tradingview.com/external-embedding/embed-widget-technical-analysis.js'',
      defaults = TechnicalAnalysis_defaults,
      styles = sized_styles,
      payload = (\<lambda>p. Inr (TechnicalAnalysis_payload p))\<rparr>"

subsection \<open>SingleTicker\<close>

definition SingleTicker_defaults :: props where
  "SingleTicker_defaults = map_of
     [(''width'', JStr ''full''),
      (''locale'', JStr ''en''),
      (''colorTheme'', JStr ''light''),
      (''isTransparent'', JBool False)]"

definition SingleTicker_payload :: "props \<Rightarrow> object_literal" where
  "SingleTicker_payload p =
     [(''symbol'', get p ''symbol''),
      (''width'', (if get p ''width'' = JStr ''full'' then JStr ''100%'' else get p ''width'')),
      (''locale'', get p ''locale''),
      (''colorTheme'', get p ''colorTheme''),
      (''isTransparent'', get p ''isTransparent'')]"

definition SingleTicker :: widget where
  "SingleTicker =
     \<lparr>url = ''https://s3.tradingview.com/external-embedding/embed-widget-single-quote.js'',
      defaults = SingleTicker_defaults,
      styles = width_styles,
      payload = (\<lambda>p. Inr (SingleTicker_payload p))\<rparr>"

subsection \<open>SymbolInfo\<close>

definition SymbolInfo_defaults :: props where
  "SymbolInfo_defaults = map_of
     [(''width'', JStr ''full''),
      (''locale'', JStr ''en''),
      (''colorTheme'', JStr ''light''),
      (''isTransparent'', JBool False)]"

definition SymbolInfo_payload :: "props \<Rightarrow> object_literal" where
  "SymbolInfo_payload p =
     [(''symbol'', get p ''symbol''),
      (''width'', (if get p ''width'' = JStr ''full'' then JStr ''100%'' else get p ''width'')),
      (''locale'', get p ''locale''),
      (''colorTheme'', get p ''colorTheme''),
      (''isTransparent'', get p ''isTransparent'')]"

definition SymbolInfo :: widget where
  "SymbolInfo =
     \<lparr>url = ''https://s3.tradingview.com/external-embedding/embed-widget-symbol-info.js'',
      defaults = SymbolInfo_defaults,
      styles = width_styles,
      payload = (\<lambda>p. Inr (SymbolInfo_payload p))\<rparr>"

definition widgets :: "widget list" where
  "widgets =
     [AdvancedChart, MiniChart, SymbolOverview, SymbolInfo, TechnicalAnalysis, FundamentalData,
      CompanyProfile, SingleTicker, Screener, CryptoMarket, TopStories, EconomicCalendar]"

definition script_text :: "widget \<Rightarrow> props \<Rightarrow> error + object_literal" where
  \<comment> \<open>\<open>JSON.stringify\<close> of the payload built from the merged props\<close>
  "script_text w props =
     (case payload w (mergeProps (defaults w) props) of
        Inl e \<Rightarrow> Inl e
      | Inr obj \<Rightarrow> Inr (JSON_stringify obj))"

definition MiniChart_wire :: "props \<Rightarrow> object_literal" where
  "MiniChart_wire props = JSON_stringify (MiniChart_payload (mergeProps MiniChart_defaults props))"

definition TopStories_wire :: "props \<Rightarrow> object_literal" where
  "TopStories_wire props =
     JSON_stringify (TopStories_widgetConfig (mergeProps TopStories_defaults props))"


section \<open>The widget lifecycle\<close>

text \<open>
  Every component runs the same effect:
  \<^verbatim>\<open>
  createEffect(() => {
    const widgetRoot = document.createElement("div");
    container.appendChild(widgetRoot);
    ... style assignments ...
    const downloadScript = async () => {
      const [error] = await tryCatch(loadScript(url, { textContent: JSON.stringify(...) }, widgetRoot));
      if (error) _props.onError?.(error);
    };
    void downloadScript();
    onCleanup(() => { widgetRoot.remove(); });
  });
  \<close>
  The state of one component instance is the container's style and child nodes, the
  elements the effect has created (a widget root is named by its index of creation, which
  is also the number of its mount cycle), the cleanups registered by the last run, the
  script loads in flight, the calls of \<open>onError\<close> made so far, the rejections of a
  \<open>downloadScript\<close> promise, and the log of the DOM operations in the order they happened.
  \<open>onError\<close> is the one function among the props; it is kept beside the data fields, a
  callback being named by a number.

  The reactive runtime, \<open>loadScript\<close> and \<open>tryCatch\<close> are libraries: solid-js runs the
  cleanups of the previous run before it runs the effect again, and on disposal;
  \<open>loadScript\<close> appends the script element to the node it is given and returns a promise
  that settles once; \<open>tryCatch\<close> turns a rejection into the first component of a pair.
\<close>

datatype js_error = Error string

record caller_props =
  data :: props
  onError :: "nat option"

datatype dom_op = CreateElement nat | AppendChild nat | Remove nat

record script =
  src :: string
  textContent :: object_literal

record element =
  style :: box
  scripts :: "script list"

record controller =
  container_style :: box
  childNodes :: "nat list"
  elements :: "element list"
  cleanups :: "nat list"
  loading :: "nat list"
  props_now :: caller_props
  disposed :: bool
  reported :: "(nat \<times> nat \<times> js_error) list"
  rejected :: "(nat \<times> error) list"
  dom_log :: "dom_op list"

definition initial :: "caller_props \<Rightarrow> controller" where
  "initial cp =
     \<lparr>container_style = \<lparr>style_width = None, style_height = None\<rparr>,
      childNodes = [],
      elements = [],
      cleanups = [],
      loading = [],
      props_now = cp,
      disposed = False,
      reported = [],
      rejected = [],
      dom_log = []\<rparr>"

definition effect :: "widget \<Rightarrow> controller \<Rightarrow> controller" where
  \<comment> \<open>one run of the effect function, up to the \<open>await\<close> inside \<open>downloadScript\<close>; a payload
      that throws rejects the promise of \<open>downloadScript\<close> before \<open>loadScript\<close> is called\<close>
  "effect w s =
     (let p = mergeProps (defaults w) (data (props_now s));
          widgetRoot = length (elements s);
          styled = styles w p (container_style s, \<lparr>style_width = None, style_height = None\<rparr>);
          s1 = s\<lparr>container_style := fst styled,
                 childNodes := childNodes s @ [widgetRoot],
                 elements := elements s @ [\<lparr>style = snd styled, scripts = []\<rparr>],
                 dom_log := dom_log s @ [CreateElement widgetRoot, AppendChild widgetRoot]\<rparr>;
          s2 = (case payload w p of
                  Inl e \<Rightarrow> s1\<lparr>rejected := rejected s1 @ [(widgetRoot, e)]\<rparr>
                | Inr obj \<Rightarrow>
                    s1\<lparr>elements := elements s @
                          [\<lparr>style = snd styled,
                            scripts = [\<lparr>src = url w, textContent = JSON_stringify obj\<rparr>]\<rparr>],
                       loading := loading s1 @ [widgetRoot]\<rparr>)
      in s2\<lparr>cleanups := cleanups s2 @ [widgetRoot]\<rparr>)"

definition remove :: "nat \<Rightarrow> controller \<Rightarrow> controller" where
  \<comment> \<open>\<open>widgetRoot.remove()\<close>\<close>
  "remove k s = s\<lparr>childNodes := removeAll k (childNodes s), dom_log := dom_log s @ [Remove k]\<rparr>"

definition run_cleanups :: "controller \<Rightarrow> controller" where
  "run_cleanups s = (fold remove (rev (cleanups s)) s)\<lparr>cleanups := []\<rparr>"

definition run_effect :: "widget \<Rightarrow> controller \<Rightarrow> controller" where
  \<comment> \<open>a run of the effect by the runtime: the cleanups of the previous run first\<close>
  "run_effect w s = effect w (run_cleanups s)"

definition tryCatch :: "js_error + 'a \<Rightarrow> js_error option \<times> 'a option" where
  "tryCatch outcome = (case outcome of Inl e \<Rightarrow> (Some e, None) | Inr v \<Rightarrow> (None, Some v))"

definition downloadScript_resume :: "js_error + unit \<Rightarrow> nat \<Rightarrow> controller \<Rightarrow> controller" where
  \<comment> \<open>the rest of \<open>downloadScript\<close> once the promise of \<open>loadScript\<close> has settled:
      \<open>const [error] = ...; if (error) _props.onError?.(error);\<close>\<close>
  "downloadScript_resume outcome k s =
     (case fst (tryCatch outcome) of
        None \<Rightarrow> s
      | Some e \<Rightarrow>
          (case onError (props_now s) of
             None \<Rightarrow> s
           | Some callback \<Rightarrow> s\<lparr>reported := reported s @ [(k, callback, e)]\<rparr>))"

text \<open>
  What can happen to a mounted component: the caller's props change in a field the
  effect reads, so that the runtime runs the effect again; the script of a mount cycle
  loads, or fails to load; the component is disposed.
\<close>

datatype event =
    ConfigChange caller_props
  | ScriptLoaded nat
  | ScriptFailed nat js_error
  | Dispose

fun step :: "widget \<Rightarrow> controller \<Rightarrow> event \<Rightarrow> controller" where
  "step w s (ConfigChange cp) =
     (if disposed s then s\<lparr>props_now := cp\<rparr> else run_effect w (s\<lparr>props_now := cp\<rparr>))"
| "step w s (ScriptLoaded k) =
     (if k \<in> set (loading s)
      then downloadScript_resume (Inr ()) k (s\<lparr>loading := removeAll k (loading s)\<rparr>)
      else s)"
| "step w s (ScriptFailed k err) =
     (if k \<in> set (loading s)
      then downloadScript_resume (Inl err) k (s\<lparr>loading := removeAll k (loading s)\<rparr>)
      else s)"
| "step w s Dispose = (if disposed s then s else (run_cleanups s)\<lparr>disposed := True\<rparr>)"

definition mount :: "widget \<Rightarrow> caller_props \<Rightarrow> controller" where
  \<comment> \<open>\<open>createEffect\<close> runs the effect once when the component is created\<close>
  "mount w cp = run_effect w (initial cp)"

definition run :: "widget \<Rightarrow> caller_props \<Rightarrow> event list \<Rightarrow> controller" where
  "run w cp es = foldl (step w) (mount w cp) es"







section \<open>Notions used to state the properties\<close>

definition SymbolOverview_wire :: "props \<Rightarrow> error + object_literal" where
  "SymbolOverview_wire props = script_text SymbolOverview props"

definition EconomicCalendar_wire :: "props \<Rightarrow> error + object_literal" where
  "EconomicCalendar_wire props = script_text EconomicCalendar props"

definition wire_field :: "error + object_literal \<Rightarrow> string \<Rightarrow> jsval option" where
  \<comment> \<open>a field of the JSON text, when the payload could be built\<close>
  "wire_field r k = (case r of Inl e \<Rightarrow> None | Inr w \<Rightarrow> map_of w k)"

definition chart_type_colors :: "string list" where
  \<comment> \<open>the props that \<open>SymbolOverviewProps\<close> lists under "Chart Type Specific Colors"\<close>
  "chart_type_colors =
     [''color'', ''lineColor'', ''topColor'', ''bottomColor'', ''upColor'', ''downColor'',
      ''borderUpColor'', ''borderDownColor'', ''wickUpColor'', ''wickDownColor'']"

definition line_with_upColor :: props where
  \<comment> \<open>a line chart whose caller also passes a candlestick colour\<close>
  "line_with_upColor =
     [''symbols'' \<mapsto> JArr [JStr ''NASDAQ:AAPL''], ''chartType'' \<mapsto> JStr ''line'',
      ''upColor'' \<mapsto> JStr ''#00C853'']"

definition displayName :: "string \<Rightarrow> string" where
  \<comment> \<open>the claim's words: the segment between the first colon and the next one (or the end)
      when there is a colon, the whole string when there is none\<close>
  "displayName S =
     (if CHR '':'' \<in> set S
      then takeWhile (\<lambda>c. c \<noteq> CHR '':'') (tl (dropWhile (\<lambda>c. c \<noteq> CHR '':'') S))
      else S)"

fun first_occurrences :: "'a list \<Rightarrow> 'a list" where
  \<comment> \<open>the claim's words: every element once, in the order of the first occurrences\<close>
  "first_occurrences [] = []"
| "first_occurrences (x # xs) = x # first_occurrences (removeAll x xs)"

definition wire_code :: "string \<Rightarrow> string" where
  \<comment> \<open>what \<open>join\<close> writes for the country \<open>c\<close> after \<open>CountryMap[c]\<close>\<close>
  "wire_code c =
     (let v = index CountryMap (JStr c)
      in if v = JUndefined \<or> v = JNull then [] else to_string v)"

definition eu_twice :: props where
  "eu_twice = [''countries'' \<mapsto>
     JArr (map JStr [''European Union'', ''Germany'', ''European Union'', ''Japan'', ''Germany''])]"


definition reports_of :: "nat \<Rightarrow> controller \<Rightarrow> nat" where
  \<comment> \<open>the number of \<open>onError\<close> calls made for mount cycle \<open>k\<close>\<close>
  "reports_of k s = length (filter (\<lambda>r. fst r = k) (reported s))"



definition settled :: "controller \<Rightarrow> bool" where
  \<comment> \<open>a mount cycle is loading at most once, and no report exists for a cycle that is
      still loading\<close>
  "settled s \<longleftrightarrow>
     distinct (loading s)
     \<and> (\<forall>k \<in> set (loading s). k < length (elements s))
     \<and> (\<forall>r \<in> set (reported s). fst r < length (elements s) \<and> fst r \<notin> set (loading s))"

definition aapl :: caller_props where
  "aapl = \<lparr>data = [''symbol'' \<mapsto> JStr ''NASDAQ:AAPL''], onError = Some 7\<rparr>"


section \<open>The JSON text of a payload\<close>

lemma map_of_JSON_stringify:
  "distinct (map fst kvs) \<Longrightarrow>
   map_of (JSON_stringify kvs) k =
     (case map_of kvs k of
        None \<Rightarrow> None
      | Some v \<Rightarrow> if v = JUndefined then None else Some (jsonify v))"
proof (induction kvs)
  case Nil
  then show ?case by (simp add: JSON_stringify_def)
next
  case (Cons a kvs)
  obtain k' v' where a: "a = (k', v')" by (cases a)
  from Cons.prems have d: "distinct (map fst kvs)" and nk: "k' \<notin> fst ` set kvs"
    by (simp_all add: a)
  have ih: "map_of (JSON_stringify kvs) k =
     (case map_of kvs k of None \<Rightarrow> None
      | Some v \<Rightarrow> if v = JUndefined then None else Some (jsonify v))"
    using Cons.IH d by simp
  have none: "map_of kvs k' = None"
    using nk by (simp add: map_of_eq_None_iff)
  show ?case
  proof (cases "k = k'")
    case True
    then show ?thesis
      using ih none by (simp add: a JSON_stringify_def)
  next
    case False
    then show ?thesis
      using ih by (simp add: a JSON_stringify_def)
  qed
qed

lemma has_key_JSON_stringify:
  "has_key (JSON_stringify kvs) k \<longleftrightarrow> (\<exists>v. (k, v) \<in> set kvs \<and> v \<noteq> JUndefined)"
  by (force simp: has_key_def JSON_stringify_def)


section \<open>Dimension resolution\<close>

lemma full_autosize_true: "full (JBool True) sz = JBool True"
  by (simp add: full_def js_or_def)

text \<open>
  Claim C3.  With \<open>autosize = true\<close> the resolution is "fill" for every size: the style
  is \<open>100%\<close> and the value sent to the vendor is the string \<open>100%\<close>, for the width and
  for the height, whatever the size is (a pixel number included), so the resolution of
  any two sizes agrees; the container and the widget root are both styled \<open>100%\<close> in
  both directions, by the nine components that share this resolution and by AdvancedChart.
\<close>

theorem autosize_precedence:
  "css_size (full (JBool True) sz) sz = ''100%''
   \<and> wire_size (full (JBool True) sz) sz = JStr ''100%''
   \<and> css_size (full (JBool True) sz) sz = css_size (full (JBool True) sz') sz'
   \<and> wire_size (full (JBool True) sz) sz = wire_size (full (JBool True) sz') sz'
   \<and> sized_styles (p(''autosize'' \<mapsto> JBool True, ''width'' \<mapsto> sz, ''height'' \<mapsto> sz')) (c, r)
       = (c\<lparr>style_width := Some ''100%'', style_height := Some ''100%''\<rparr>,
          r\<lparr>style_width := Some ''100%'', style_height := Some ''100%''\<rparr>)
   \<and> AdvancedChart_styles (p(''autosize'' \<mapsto> JBool True, ''width'' \<mapsto> sz, ''height'' \<mapsto> sz')) (c, r)
       = (c\<lparr>style_width := Some ''100%'', style_height := Some ''100%''\<rparr>,
          r\<lparr>style_width := Some ''100%'', style_height := Some ''100%''\<rparr>)"
  by (simp add: full_autosize_true css_size_def wire_size_def sized_styles_def
      AdvancedChart_styles_def fullWidth_def fullHeight_def get_def)

theorem autosize_precedence_witness:
  "css_size (full (JBool True) (JNum 800)) (JNum 800) = ''100%''
   \<and> wire_size (full (JBool True) (JNum 800)) (JNum 800) = JStr ''100%''
   \<and> css_size (full (JBool True) (JNum 800)) (JNum 800)
       = css_size (full (JBool True) (JStr ''full'')) (JStr ''full'')"
  using autosize_precedence [of "JNum 800" "JStr ''full''" Map.empty
      "\<lparr>style_width = None, style_height = None\<rparr>" "\<lparr>style_width = None, style_height = None\<rparr>"]
  by blast

lemma MiniChart_script_text: "script_text MiniChart props = Inr (MiniChart_wire props)"
  by (simp add: script_text_def MiniChart_def MiniChart_wire_def)

lemma MiniChart_payload_distinct: "distinct (map fst (MiniChart_payload p))"
  by (simp add: MiniChart_payload_def)

lemma MiniChart_wire_width:
  "map_of (MiniChart_wire props) ''width'' =
     (let m = mergeProps MiniChart_defaults props; v = wire_size (fullWidth m) (get m ''width'')
      in if v = JUndefined then None else Some (jsonify v))"
  by (simp add: MiniChart_wire_def map_of_JSON_stringify MiniChart_payload_distinct)
     (simp add: MiniChart_payload_def Let_def)

lemma MiniChart_wire_height:
  "map_of (MiniChart_wire props) ''height'' =
     (let m = mergeProps MiniChart_defaults props; v = wire_size (fullHeight m) (get m ''height'')
      in if v = JUndefined then None else Some (jsonify v))"
  by (simp add: MiniChart_wire_def map_of_JSON_stringify MiniChart_payload_distinct)
     (simp add: MiniChart_payload_def Let_def)

text \<open>
  Claim C5.  In the text MiniChart hands to the vendor, \<open>width\<close> and \<open>height\<close> are both
  the string \<open>100%\<close> when \<open>autosize\<close> is true, and each is \<open>100%\<close> when its own prop is
  \<open>"full"\<close>; with \<open>autosize = false\<close> and numeric sizes the two fields are those numbers,
  as numbers, unchanged (so 800 and 600 stay 800 and 600).
\<close>

theorem MiniChart_wire_dimensions:
  "(get (mergeProps MiniChart_defaults props) ''autosize'' = JBool True \<longrightarrow>
      map_of (MiniChart_wire props) ''width'' = Some (JStr ''100%'')
      \<and> map_of (MiniChart_wire props) ''height'' = Some (JStr ''100%''))
   \<and> (get (mergeProps MiniChart_defaults props) ''width'' = JStr ''full'' \<longrightarrow>
      map_of (MiniChart_wire props) ''width'' = Some (JStr ''100%''))
   \<and> (get (mergeProps MiniChart_defaults props) ''height'' = JStr ''full'' \<longrightarrow>
      map_of (MiniChart_wire props) ''height'' = Some (JStr ''100%''))
   \<and> (props ''autosize'' = Some (JBool False) \<and> props ''width'' = Some (JNum w)
        \<and> props ''height'' = Some (JNum h) \<longrightarrow>
      map_of (MiniChart_wire props) ''width'' = Some (JNum w)
      \<and> map_of (MiniChart_wire props) ''height'' = Some (JNum h))"
  by (auto simp: MiniChart_wire_width MiniChart_wire_height Let_def wire_size_def
      fullWidth_def fullHeight_def full_def js_or_def get_def mergeProps_def)

theorem MiniChart_wire_dimensions_witness:
  "map_of (MiniChart_wire [''symbol'' \<mapsto> JStr ''NASDAQ:AAPL'', ''width'' \<mapsto> JStr ''full'',
       ''autosize'' \<mapsto> JBool True]) ''width'' = Some (JStr ''100%'')
   \<and> map_of (MiniChart_wire [''symbol'' \<mapsto> JStr ''NASDAQ:AAPL'', ''width'' \<mapsto> JStr ''full'',
       ''autosize'' \<mapsto> JBool True]) ''height'' = Some (JStr ''100%'')
   \<and> map_of (MiniChart_wire [''symbol'' \<mapsto> JStr ''NASDAQ:AAPL'', ''width'' \<mapsto> JNum 800,
       ''height'' \<mapsto> JNum 600, ''autosize'' \<mapsto> JBool False]) ''width'' = Some (JNum 800)
   \<and> map_of (MiniChart_wire [''symbol'' \<mapsto> JStr ''NASDAQ:AAPL'', ''width'' \<mapsto> JNum 800,
       ''height'' \<mapsto> JNum 600, ''autosize'' \<mapsto> JBool False]) ''height'' = Some (JNum 600)"
  using MiniChart_wire_dimensions [of "[''symbol'' \<mapsto> JStr ''NASDAQ:AAPL'', ''width'' \<mapsto> JStr ''full'',
       ''autosize'' \<mapsto> JBool True]" 0 0]
    MiniChart_wire_dimensions [of "[''symbol'' \<mapsto> JStr ''NASDAQ:AAPL'', ''width'' \<mapsto> JNum 800,
       ''height'' \<mapsto> JNum 600, ''autosize'' \<mapsto> JBool False]" 800 600]
  by (simp add: get_def mergeProps_def MiniChart_defaults_def)


section \<open>Defaulting\<close>




section \<open>TopStories: the symbol key\<close>

lemma TopStories_script_text: "script_text TopStories props = Inr (TopStories_wire props)"
  by (simp add: script_text_def TopStories_def TopStories_wire_def)

lemma TopStories_feedMode_cases:
  "has_key (TopStories_widgetConfig p) ''symbol'' \<longleftrightarrow> get p ''feedMode'' = JStr ''symbol''"
  by (cases "get p ''feedMode'' = JStr ''symbol''")
     (simp_all add: TopStories_widgetConfig_def has_key_def)

lemma TopStories_wire_symbol:
  "has_key (TopStories_wire props) ''symbol'' \<longleftrightarrow>
     get (mergeProps TopStories_defaults props) ''feedMode'' = JStr ''symbol''
     \<and> get (mergeProps TopStories_defaults props) ''symbol'' \<noteq> JUndefined"
  by (auto simp: TopStories_wire_def has_key_JSON_stringify TopStories_widgetConfig_def)

lemma TopStories_symbol_merged:
  "get (mergeProps TopStories_defaults props) ''symbol'' = get props ''symbol''"
  by (simp add: get_def mergeProps_def TopStories_defaults_def split: option.splits)

text \<open>
  Claim C7.  When the feed mode (after defaulting) is not \<open>"symbol"\<close>, neither the
  object built by TopStories nor its JSON text has a \<open>symbol\<close> key, whatever the caller
  passes as \<open>symbol\<close>.  The object has the key exactly in feed mode \<open>"symbol"\<close>; so has
  the JSON text for every configuration that supplies a symbol whenever its feed mode is
  \<open>"symbol"\<close>, which the type \<open>SymbolModeProps\<close> requires (\<open>JSON.stringify\<close> leaves out
  a property whose value is \<open>undefined\<close>).
\<close>

theorem TopStories_symbol_key:
  "(get (mergeProps TopStories_defaults props) ''feedMode'' \<noteq> JStr ''symbol'' \<longrightarrow>
      \<not> has_key (TopStories_wire props) ''symbol''
      \<and> \<not> has_key (TopStories_widgetConfig (mergeProps TopStories_defaults props)) ''symbol'')
   \<and> (has_key (TopStories_widgetConfig (mergeProps TopStories_defaults props)) ''symbol''
        \<longleftrightarrow> get (mergeProps TopStories_defaults props) ''feedMode'' = JStr ''symbol'')
   \<and> ((get (mergeProps TopStories_defaults props) ''feedMode'' = JStr ''symbol''
          \<longrightarrow> get props ''symbol'' \<noteq> JUndefined) \<longrightarrow>
       (has_key (TopStories_wire props) ''symbol''
        \<longleftrightarrow> get (mergeProps TopStories_defaults props) ''feedMode'' = JStr ''symbol''))"
  by (auto simp: TopStories_feedMode_cases TopStories_wire_symbol TopStories_symbol_merged)

theorem TopStories_symbol_key_witness:
  "\<not> has_key (TopStories_wire [''feedMode'' \<mapsto> JStr ''all_symbols'', ''symbol'' \<mapsto> JStr ''NASDAQ:AAPL''])
       ''symbol''
   \<and> \<not> has_key (TopStories_wire [''feedMode'' \<mapsto> JStr ''market'', ''symbol'' \<mapsto> JStr ''NASDAQ:AAPL''])
       ''symbol''
   \<and> \<not> has_key (TopStories_wire [''symbol'' \<mapsto> JStr ''NASDAQ:AAPL'']) ''symbol''
   \<and> has_key (TopStories_wire [''feedMode'' \<mapsto> JStr ''symbol'', ''symbol'' \<mapsto> JStr ''NASDAQ:AAPL''])
       ''symbol''"
  using TopStories_symbol_key [of "[''feedMode'' \<mapsto> JStr ''all_symbols'', ''symbol'' \<mapsto> JStr ''NASDAQ:AAPL'']"]
    TopStories_symbol_key [of "[''feedMode'' \<mapsto> JStr ''market'', ''symbol'' \<mapsto> JStr ''NASDAQ:AAPL'']"]
    TopStories_symbol_key [of "[''symbol'' \<mapsto> JStr ''NASDAQ:AAPL'']"]
    TopStories_symbol_key [of "[''feedMode'' \<mapsto> JStr ''symbol'', ''symbol'' \<mapsto> JStr ''NASDAQ:AAPL'']"]
  by (simp add: get_def mergeProps_def TopStories_defaults_def)


section \<open>SymbolOverview\<close>

lemma split_not_Nil: "split c s \<noteq> []"
  by (induction s) (auto split: list.splits)

lemma split_unfold:
  "split c s = takeWhile (\<lambda>x. x \<noteq> c) s #
     (if c \<in> set s then split c (tl (dropWhile (\<lambda>x. x \<noteq> c) s)) else [])"
proof (induction s)
  case Nil
  then show ?case by simp
next
  case (Cons x xs)
  then show ?case
    by (cases "split c xs") (auto simp: split_not_Nil)
qed

lemma split_length: "1 < length (split c s) \<longleftrightarrow> c \<in> set s"
  by (subst split_unfold) (simp add: split_not_Nil)

lemma split_second:
  "c \<in> set s \<Longrightarrow> split c s ! 1 = takeWhile (\<lambda>x. x \<noteq> c) (tl (dropWhile (\<lambda>x. x \<noteq> c) s))"
proof -
  assume "c \<in> set s"
  then have "split c s ! 1 = hd (split c (tl (dropWhile (\<lambda>x. x \<noteq> c) s)))"
    by (subst split_unfold) (simp add: hd_conv_nth split_not_Nil)
  also have "\<dots> = takeWhile (\<lambda>x. x \<noteq> c) (tl (dropWhile (\<lambda>x. x \<noteq> c) s))"
    by (subst split_unfold) simp
  finally show ?thesis .
qed

lemma SymbolOverview_object_distinct: "distinct (map fst (SymbolOverview_object p symbols))"
  by (simp add: SymbolOverview_object_def)

lemma SymbolOverview_wire_Inr:
  "SymbolOverview_wire props = Inr w \<Longrightarrow>
   \<exists>symbols. w = JSON_stringify (SymbolOverview_object (mergeProps SymbolOverview_defaults props) symbols)"
  by (auto simp: SymbolOverview_wire_def script_text_def SymbolOverview_def
      SymbolOverview_payload_def split: sum.splits)

lemma SymbolOverview_color_member:
  "\<forall>f \<in> set chart_type_colors. (f, get p f) \<in> set (SymbolOverview_object p symbols)"
  unfolding chart_type_colors_def SymbolOverview_object_def
  by simp

lemma SymbolOverview_color_lookup:
  "f \<in> set chart_type_colors \<Longrightarrow> map_of (SymbolOverview_object p symbols) f = Some (get p f)"
  using SymbolOverview_color_member [of p symbols] SymbolOverview_object_distinct [of p symbols]
  by (simp add: map_of_eq_Some_iff)

lemma get_mergeProps_no_default:
  "dflt k = None \<Longrightarrow> get (mergeProps dflt props) k = get props k"
  by (simp add: get_def mergeProps_def split: option.splits)

lemma SymbolOverview_color_no_default:
  "\<forall>f \<in> set chart_type_colors. SymbolOverview_defaults f = None"
  unfolding chart_type_colors_def SymbolOverview_defaults_def map_of_eq_None_iff
  by simp

lemma SymbolOverview_color_merged:
  "f \<in> set chart_type_colors \<Longrightarrow> get (mergeProps SymbolOverview_defaults props) f = get props f"
  using SymbolOverview_color_no_default by (simp add: get_mergeProps_no_default)

lemma map_of_has_key: "has_key kvs k \<longleftrightarrow> map_of kvs k \<noteq> None"
  by (simp add: has_key_def map_of_eq_None_iff)

text \<open>
  Claim C2, as the code has it.  SymbolOverview passes every chart-type-specific colour
  through: whatever the chart type, the JSON text contains such a field exactly when the
  caller supplies the prop, and then with the caller's value.
\<close>

theorem SymbolOverview_colors_pass_through:
  assumes "SymbolOverview_wire props = Inr w" and "f \<in> set chart_type_colors"
  shows "(has_key w f \<longleftrightarrow> get props f \<noteq> JUndefined)
    \<and> (get props f \<noteq> JUndefined \<longrightarrow> map_of w f = Some (jsonify (get props f)))"
proof -
  from assms(1) obtain symbols where
    w: "w = JSON_stringify (SymbolOverview_object (mergeProps SymbolOverview_defaults props) symbols)"
    using SymbolOverview_wire_Inr by blast
  have merged: "get (mergeProps SymbolOverview_defaults props) f = get props f"
    using assms(2) by (rule SymbolOverview_color_merged)
  have "map_of w f = (if get props f = JUndefined then None else Some (jsonify (get props f)))"
    unfolding w
    by (simp add: map_of_JSON_stringify SymbolOverview_object_distinct
        SymbolOverview_color_lookup [OF assms(2)] merged)
  then show ?thesis
    by (simp add: map_of_has_key)
qed

lemma line_with_upColor_wire:
  "SymbolOverview_wire line_with_upColor =
     Inr (JSON_stringify (SymbolOverview_object (mergeProps SymbolOverview_defaults line_with_upColor)
       (JArr [JArr [JStr ''AAPL'', JStr ''NASDAQ:AAPL|1D'']])))"
  by (simp add: SymbolOverview_wire_def script_text_def SymbolOverview_def
      SymbolOverview_payload_def array_map_def SymbolOverview_symbol_def
      line_with_upColor_def mergeProps_def get_def SymbolOverview_defaults_def)

lemma line_with_upColor_chartType:
  "get (mergeProps SymbolOverview_defaults line_with_upColor) ''chartType'' = JStr ''line''"
  by (simp add: line_with_upColor_def mergeProps_def get_def)

lemma line_with_upColor_upColor:
  "get line_with_upColor ''upColor'' = JStr ''#00C853''"
  by (simp add: line_with_upColor_def get_def)

lemma line_with_upColor_downColor:
  "get line_with_upColor ''downColor'' = JUndefined"
  by (simp add: line_with_upColor_def get_def)

lemma upColor_chart_type_color: "''upColor'' \<in> set chart_type_colors"
  by (simp add: chart_type_colors_def)

lemma downColor_chart_type_color: "''downColor'' \<in> set chart_type_colors"
  by (simp add: chart_type_colors_def)

text \<open>
  Claim C2 as stated fails: for \<open>chartType = "line"\<close> and a supplied \<open>upColor\<close>, the JSON
  text has the field \<open>upColor\<close>.
\<close>

theorem SymbolOverview_line_omits_candlestick_colors_counterexample:
  "get (mergeProps SymbolOverview_defaults line_with_upColor) ''chartType'' = JStr ''line''
   \<and> wire_field (SymbolOverview_wire line_with_upColor) ''upColor'' = Some (JStr ''#00C853'')"
proof -
  have "map_of (JSON_stringify (SymbolOverview_object
      (mergeProps SymbolOverview_defaults line_with_upColor)
      (JArr [JArr [JStr ''AAPL'', JStr ''NASDAQ:AAPL|1D'']]))) ''upColor'' = Some (JStr ''#00C853'')"
    by (simp add: map_of_JSON_stringify SymbolOverview_object_distinct
        SymbolOverview_color_lookup [OF upColor_chart_type_color]
        SymbolOverview_color_merged [OF upColor_chart_type_color]
        line_with_upColor_upColor)
  then show ?thesis
    by (simp add: line_with_upColor_chartType line_with_upColor_wire wire_field_def)
qed

theorem SymbolOverview_colors_pass_through_witness:
  "wire_field (SymbolOverview_wire line_with_upColor) ''upColor'' = Some (JStr ''#00C853'')
   \<and> wire_field (SymbolOverview_wire line_with_upColor) ''downColor'' = None"
  using SymbolOverview_colors_pass_through [OF line_with_upColor_wire upColor_chart_type_color]
    SymbolOverview_colors_pass_through [OF line_with_upColor_wire downColor_chart_type_color]
  by (simp add: line_with_upColor_wire line_with_upColor_upColor line_with_upColor_downColor
      wire_field_def map_of_has_key)

lemma SymbolOverview_symbol_JStr:
  "SymbolOverview_symbol (JStr S) = Inr (JArr [JStr (displayName S), JStr (S @ ''|1D'')])"
  by (simp add: SymbolOverview_symbol_def displayName_def Let_def split_length split_second
      del: One_nat_def)

lemma map_result_symbols:
  "map_result SymbolOverview_symbol (map JStr ss)
     = Inr (map (\<lambda>S. JArr [JStr (displayName S), JStr (S @ ''|1D'')]) ss)"
  by (induction ss) (simp_all add: SymbolOverview_symbol_JStr)

lemma jsonify_symbol_pairs:
  "jsonify (JArr (map (\<lambda>S. JArr [JStr (f S), JStr (g S)]) ss))
     = JArr (map (\<lambda>S. JArr [JStr (f S), JStr (g S)]) ss)"
  by (induction ss) simp_all

lemma SymbolOverview_symbols_member:
  "(''symbols'', symbols) \<in> set (SymbolOverview_object p symbols)"
  unfolding SymbolOverview_object_def by simp

lemma SymbolOverview_symbols_lookup:
  "map_of (SymbolOverview_object p symbols) ''symbols'' = Some symbols"
  using SymbolOverview_symbols_member [of symbols p] SymbolOverview_object_distinct [of p symbols]
  by (simp add: map_of_eq_Some_iff)

lemma SymbolOverview_symbols_no_default: "SymbolOverview_defaults ''symbols'' = None"
  unfolding SymbolOverview_defaults_def map_of_eq_None_iff by simp

text \<open>
  Claim C10.  For an array of strings, the \<open>symbols\<close> field of the JSON text is the array
  of the pairs \<open>[displayName, S + "|1D"]\<close>, one per entry and in the order of the entries,
  where the display name is the segment of \<open>S\<close> after its first colon (up to the next
  one), or \<open>S\<close> itself when it has no colon.
\<close>

theorem SymbolOverview_symbols:
  assumes "props ''symbols'' = Some (JArr (map JStr ss))"
  shows "wire_field (SymbolOverview_wire props) ''symbols''
     = Some (JArr (map (\<lambda>S. JArr [JStr (displayName S), JStr (S @ ''|1D'')]) ss))"
proof -
  let ?m = "mergeProps SymbolOverview_defaults props"
  let ?pairs = "JArr (map (\<lambda>S. JArr [JStr (displayName S), JStr (S @ ''|1D'')]) ss)"
  have "get ?m ''symbols'' = get props ''symbols''"
    by (simp add: get_mergeProps_no_default SymbolOverview_symbols_no_default)
  then have symbols: "get ?m ''symbols'' = JArr (map JStr ss)"
    using assms by (simp add: get_def)
  have payload: "SymbolOverview_payload ?m = Inr (SymbolOverview_object ?m ?pairs)"
    by (simp add: SymbolOverview_payload_def symbols array_map_def map_result_symbols)
  have wire: "SymbolOverview_wire props = Inr (JSON_stringify (SymbolOverview_object ?m ?pairs))"
    by (simp add: SymbolOverview_wire_def script_text_def SymbolOverview_def payload)
  have "map_of (JSON_stringify (SymbolOverview_object ?m ?pairs)) ''symbols'' = Some ?pairs"
    by (simp only: map_of_JSON_stringify [OF SymbolOverview_object_distinct]
        SymbolOverview_symbols_lookup jsonify_symbol_pairs option.case jsval.distinct if_False)
  with wire show ?thesis by (simp add: wire_field_def)
qed

theorem SymbolOverview_symbols_witness:
  "wire_field
     (SymbolOverview_wire [''symbols'' \<mapsto> JArr [JStr ''NASDAQ:AAPL'', JStr ''BTCUSD'', JStr ''A:B:C'']])
     ''symbols''
   = Some (JArr [JArr [JStr ''AAPL'', JStr ''NASDAQ:AAPL|1D''],
                 JArr [JStr ''BTCUSD'', JStr ''BTCUSD|1D''],
                 JArr [JStr ''B'', JStr ''A:B:C|1D'']])"
  using SymbolOverview_symbols [of "[''symbols'' \<mapsto> JArr [JStr ''NASDAQ:AAPL'', JStr ''BTCUSD'', JStr ''A:B:C'']]"
      "[''NASDAQ:AAPL'', ''BTCUSD'', ''A:B:C'']"]
  by (simp add: displayName_def)


section \<open>EconomicCalendar: the country filter\<close>

lemma first_occurrences_set: "set (first_occurrences xs) = set xs"
  by (induction xs rule: first_occurrences.induct) auto

lemma first_occurrences_distinct: "distinct (first_occurrences xs)"
  by (induction xs rule: first_occurrences.induct) (auto simp: first_occurrences_set)

lemma first_occurrences_of_distinct: "distinct xs \<Longrightarrow> first_occurrences xs = xs"
  by (induction xs) auto

lemma first_occurrences_idem: "first_occurrences (first_occurrences xs) = first_occurrences xs"
  by (simp add: first_occurrences_of_distinct first_occurrences_distinct)

lemma first_occurrences_map:
  "inj f \<Longrightarrow> first_occurrences (map f xs) = map f (first_occurrences xs)"
  by (induction xs rule: first_occurrences.induct) (simp_all add: map_removeAll_inj)

lemma foldl_Set_add:
  "foldl Set_add acc xs = acc @ first_occurrences (filter (\<lambda>x. x \<notin> set acc) xs)"
proof (induction xs arbitrary: acc)
  case Nil
  then show ?case by simp
next
  case (Cons x xs)
  show ?case
  proof (cases "x \<in> set acc")
    case True
    then have "Set_add acc x = acc" by (simp add: Set_add_def)
    with True show ?thesis by (simp add: Cons.IH)
  next
    case False
    then have add: "Set_add acc x = acc @ [x]" by (simp add: Set_add_def)
    have "filter (\<lambda>y. y \<notin> set (acc @ [x])) xs = removeAll x (filter (\<lambda>y. y \<notin> set acc) xs)"
      by (induction xs) auto
    with False add show ?thesis by (simp add: Cons.IH)
  qed
qed

lemma new_Set_array: "new_Set (JArr xs) = Inr (first_occurrences xs)"
  by (simp add: new_Set_def foldl_Set_add)

lemma new_Array_strings: "new_Array (map JStr ys) = Inr (map JStr ys)"
  by (cases ys rule: list.exhaust) (auto simp: new_Array_def split: list.splits)

lemma countries_strings:
  "get p ''countries'' = JArr (map JStr cs) \<Longrightarrow> countries p = Inr (map JStr (first_occurrences cs))"
  by (simp add: countries_def new_Set_array first_occurrences_map inj_def new_Array_strings)

lemma countryFilter_strings: "countryFilter (map JStr cs) = join '','' (map wire_code cs)"
  by (simp add: countryFilter_def array_join_def wire_code_def [abs_def] Let_def comp_def)

lemma split_no_sep: "c \<notin> set x \<Longrightarrow> split c x = [x]"
  by (induction x) auto

lemma split_append_sep: "c \<notin> set x \<Longrightarrow> split c (x @ c # rest) = x # split c rest"
  by (induction x) auto

lemma split_join:
  "xs \<noteq> [] \<Longrightarrow> \<forall>x \<in> set xs. c \<notin> set x \<Longrightarrow> split c (join [c] xs) = xs"
  by (induction "[c]" xs rule: join.induct) (simp_all add: split_no_sep split_append_sep)

lemma count_list_distinct: "distinct xs \<Longrightarrow> x \<in> set xs \<Longrightarrow> count_list xs x = 1"
  by (induction xs) auto

lemma CountryMap_keys: "map fst CountryMap = Country"
  by (simp add: CountryMap_def Country_def)

lemma CountryMap_codes_distinct: "distinct (map snd CountryMap)"
  by (simp add: CountryMap_def)

lemma CountryMap_codes:
  "list_all (\<lambda>(k, v). case v of JStr s \<Rightarrow> CHR '','' \<notin> set s | _ \<Rightarrow> False) CountryMap"
  by (simp add: CountryMap_def)

lemma CountryMap_European_Union: "index CountryMap (JStr ''European Union'') = JStr ''eu''"
  by (simp add: index_def CountryMap_def)

lemma Country_entry:
  assumes "c \<in> set Country"
  obtains s where "(c, JStr s) \<in> set CountryMap" and "index CountryMap (JStr c) = JStr s"
    and "CHR '','' \<notin> set s" and "wire_code c = s"
proof -
  from assms have "c \<in> fst ` set CountryMap"
    using CountryMap_keys by (metis list.set_map)
  then obtain v where v: "map_of CountryMap c = Some v"
    by (metis map_of_eq_None_iff not_Some_eq)
  then have mem: "(c, v) \<in> set CountryMap" by (rule map_of_SomeD)
  with CountryMap_codes obtain s where s: "v = JStr s" "CHR '','' \<notin> set s"
    by (auto simp: list_all_iff split: jsval.splits)
  have "index CountryMap (JStr c) = JStr s"
    using v s by (simp add: index_def)
  moreover from this have "wire_code c = s"
    by (simp add: wire_code_def)
  ultimately show thesis using that mem s by blast
qed

lemma wire_code_inj: "inj_on wire_code (set Country)"
proof (rule inj_onI)
  fix c d
  assume c: "c \<in> set Country" and d: "d \<in> set Country" and eq: "wire_code c = wire_code d"
  from c obtain s where s: "(c, JStr s) \<in> set CountryMap" "wire_code c = s"
    by (rule Country_entry)
  from d obtain t where t: "(d, JStr t) \<in> set CountryMap" "wire_code d = t"
    by (rule Country_entry)
  have "inj_on snd (set CountryMap)"
    using CountryMap_codes_distinct by (simp add: distinct_map)
  then have "(c, JStr s) = (d, JStr t)"
    using s t eq by (intro inj_onD [of snd "set CountryMap"]) simp_all
  then show "c = d" by simp
qed

lemma EconomicCalendar_payload_countryFilter:
  assumes "countries p = Inr cs"
  obtains obj where "EconomicCalendar_payload p = Inr obj" and "distinct (map fst obj)"
    and "map_of obj ''countryFilter'' = Some (JStr (countryFilter cs))"
  using assms by (simp add: EconomicCalendar_payload_def)

lemma EconomicCalendar_wire_countryFilter:
  assumes "get (mergeProps EconomicCalendar_defaults props) ''countries'' = JArr (map JStr cs)"
  shows "wire_field (EconomicCalendar_wire props) ''countryFilter''
     = Some (JStr (join '','' (map wire_code (first_occurrences cs))))"
proof -
  let ?m = "mergeProps EconomicCalendar_defaults props"
  from countries_strings [OF assms] obtain obj where
    obj: "EconomicCalendar_payload ?m = Inr obj" "distinct (map fst obj)"
      "map_of obj ''countryFilter'' = Some (JStr (countryFilter (map JStr (first_occurrences cs))))"
    by (rule EconomicCalendar_payload_countryFilter)
  have "EconomicCalendar_wire props = Inr (JSON_stringify obj)"
    by (simp add: EconomicCalendar_wire_def script_text_def EconomicCalendar_def obj(1))
  moreover have "map_of (JSON_stringify obj) ''countryFilter''
      = Some (JStr (join '','' (map wire_code (first_occurrences cs))))"
    by (simp add: map_of_JSON_stringify obj(2,3) countryFilter_strings)
  ultimately show ?thesis by (simp add: wire_field_def)
qed

lemma filter_codes_once:
  assumes "set cs \<subseteq> set Country" and "c \<in> set cs"
  shows "count_list (split CHR '','' (join '','' (map wire_code (first_occurrences cs)))) (wire_code c) = 1"
proof -
  let ?fo = "first_occurrences cs"
  have sub: "set ?fo \<subseteq> set Country"
    using assms(1) by (simp add: first_occurrences_set)
  have nonempty: "map wire_code ?fo \<noteq> []"
    using assms(2) first_occurrences_set [of cs] by auto
  have "\<forall>x \<in> set (map wire_code ?fo). CHR '','' \<notin> set x"
  proof
    fix x assume "x \<in> set (map wire_code ?fo)"
    then obtain d where "d \<in> set ?fo" "x = wire_code d" by auto
    with sub have "d \<in> set Country" by auto
    then obtain s where "CHR '','' \<notin> set s" "wire_code d = s" by (rule Country_entry)
    with \<open>x = wire_code d\<close> show "CHR '','' \<notin> set x" by simp
  qed
  with nonempty have "split CHR '','' (join '','' (map wire_code ?fo)) = map wire_code ?fo"
    by (rule split_join)
  moreover have "distinct (map wire_code ?fo)"
    using first_occurrences_distinct [of cs] sub wire_code_inj
    by (simp add: distinct_map inj_on_subset)
  moreover have "wire_code c \<in> set (map wire_code ?fo)"
    using assms(2) by (simp add: first_occurrences_set)
  ultimately show ?thesis
    by (simp add: count_list_distinct)
qed

text \<open>
  Claim C6.  \<open>"European Union"\<close> maps to \<open>"eu"\<close>.  For a \<open>countries\<close> array of strings,
  the \<open>countryFilter\<close> of the JSON text is the comma-joined list of the codes of the
  array's elements, each element once and in the order of the first occurrences, a
  function of the array alone.  When the elements are declared countries, the code of
  each listed country is exactly one of the comma-separated parts of the filter.
\<close>

theorem EconomicCalendar_country_filter:
  assumes "get (mergeProps EconomicCalendar_defaults props) ''countries'' = JArr (map JStr cs)"
  shows "index CountryMap (JStr ''European Union'') = JStr ''eu''
    \<and> wire_field (EconomicCalendar_wire props) ''countryFilter''
        = Some (JStr (join '','' (map wire_code (first_occurrences cs))))
    \<and> distinct (first_occurrences cs)
    \<and> set (first_occurrences cs) = set cs
    \<and> (set cs \<subseteq> set Country \<longrightarrow>
        (\<forall>c \<in> set cs.
           count_list (split CHR '','' (join '','' (map wire_code (first_occurrences cs))))
             (wire_code c) = 1))"
  using EconomicCalendar_wire_countryFilter [OF assms]
  by (simp add: CountryMap_European_Union first_occurrences_distinct first_occurrences_set
      filter_codes_once)

lemma eu_twice_countries:
  "get (mergeProps EconomicCalendar_defaults eu_twice) ''countries''
     = JArr (map JStr [''European Union'', ''Germany'', ''European Union'', ''Japan'', ''Germany''])"
  by (simp add: eu_twice_def mergeProps_def get_def)

lemma wire_code_examples:
  "wire_code ''European Union'' = ''eu''" "wire_code ''Germany'' = ''de''" "wire_code ''Japan'' = ''jp''"
  by (simp_all add: wire_code_def index_def CountryMap_def)

lemma examples_declared:
  "set [''European Union'', ''Germany'', ''European Union'', ''Japan'', ''Germany''] \<subseteq> set Country"
  by (simp add: Country_def)

theorem EconomicCalendar_country_filter_witness:
  "wire_field (EconomicCalendar_wire eu_twice) ''countryFilter'' = Some (JStr ''eu,de,jp'')
   \<and> count_list (split CHR '','' ''eu,de,jp'') ''eu'' = 1"
  using EconomicCalendar_country_filter [OF eu_twice_countries] examples_declared
  by (simp add: wire_code_examples)


section \<open>The mapping tables are total\<close>

lemma table_total:
  assumes keys: "map fst tbl = vals"
    and defined: "JUndefined \<notin> set (map snd tbl)"
  shows "\<forall>v \<in> set vals. index tbl (JStr v) \<noteq> JUndefined"
proof
  fix v assume "v \<in> set vals"
  with keys have "v \<in> fst ` set tbl" by auto
  then obtain w where w: "map_of tbl v = Some w"
    by (metis map_of_eq_None_iff not_Some_eq)
  then have "(v, w) \<in> set tbl" by (rule map_of_SomeD)
  then have "w \<in> set (map snd tbl)" by force
  with defined have "w \<noteq> JUndefined" by metis
  with w show "index tbl (JStr v) \<noteq> JUndefined" by (simp add: index_def)
qed

text \<open>
  Claim C8.  Every declared value of \<open>ScaleMode\<close>, \<open>ChartType\<close>, \<open>ValueTrackingMode\<close>,
  \<open>LineType\<close>, \<open>TimeFormat\<close>, \<open>Country\<close> and \<open>AdvancedChartIndicator\<close> has an entry in
  its mapping table: the lookup never yields \<open>undefined\<close>.
\<close>

theorem mapping_tables_total:
  "(\<forall>v \<in> set ScaleMode. index ScaleModeMap (JStr v) \<noteq> JUndefined)
   \<and> (\<forall>v \<in> set ChartType. index ChartTypeMap (JStr v) \<noteq> JUndefined)
   \<and> (\<forall>v \<in> set ValueTrackingMode. index ValueTrackingModeMap (JStr v) \<noteq> JUndefined)
   \<and> (\<forall>v \<in> set LineType. index LineTypeMap (JStr v) \<noteq> JUndefined)
   \<and> (\<forall>v \<in> set TimeFormat. index TimeFormatMap (JStr v) \<noteq> JUndefined)
   \<and> (\<forall>v \<in> set Country. index CountryMap (JStr v) \<noteq> JUndefined)
   \<and> (\<forall>v \<in> set AdvancedChartIndicator. index IndicatorMap (JStr v) \<noteq> JUndefined)"
proof (intro conjI)
  show "\<forall>v \<in> set ScaleMode. index ScaleModeMap (JStr v) \<noteq> JUndefined"
    by (rule table_total) (simp_all add: ScaleModeMap_def ScaleMode_def)
  show "\<forall>v \<in> set ChartType. index ChartTypeMap (JStr v) \<noteq> JUndefined"
    by (rule table_total) (simp_all add: ChartTypeMap_def ChartType_def)
  show "\<forall>v \<in> set ValueTrackingMode. index ValueTrackingModeMap (JStr v) \<noteq> JUndefined"
    by (rule table_total) (simp_all add: ValueTrackingModeMap_def ValueTrackingMode_def)
  show "\<forall>v \<in> set LineType. index LineTypeMap (JStr v) \<noteq> JUndefined"
    by (rule table_total) (simp_all add: LineTypeMap_def LineType_def)
  show "\<forall>v \<in> set TimeFormat. index TimeFormatMap (JStr v) \<noteq> JUndefined"
    by (rule table_total) (simp_all add: TimeFormatMap_def TimeFormat_def)
  show "\<forall>v \<in> set Country. index CountryMap (JStr v) \<noteq> JUndefined"
    by (rule table_total) (simp_all add: CountryMap_def Country_def)
  show "\<forall>v \<in> set AdvancedChartIndicator. index IndicatorMap (JStr v) \<noteq> JUndefined"
    by (rule table_total) (simp_all add: IndicatorMap_def AdvancedChartIndicator_def)
qed

lemma declared_examples:
  "''logarithmic'' \<in> set ScaleMode" "''candlestick'' \<in> set ChartType"
  "''scale_labels'' \<in> set ValueTrackingMode" "''stepLine'' \<in> set LineType"
  "''24h'' \<in> set TimeFormat" "''Vietnam'' \<in> set Country"
  "''zigZag'' \<in> set AdvancedChartIndicator"
  by (simp_all add: ScaleMode_def ChartType_def ValueTrackingMode_def LineType_def TimeFormat_def
      Country_def AdvancedChartIndicator_def)

theorem mapping_tables_total_witness:
  "index ScaleModeMap (JStr ''logarithmic'') \<noteq> JUndefined
   \<and> index ChartTypeMap (JStr ''candlestick'') \<noteq> JUndefined
   \<and> index ValueTrackingModeMap (JStr ''scale_labels'') \<noteq> JUndefined
   \<and> index LineTypeMap (JStr ''stepLine'') \<noteq> JUndefined
   \<and> index TimeFormatMap (JStr ''24h'') \<noteq> JUndefined
   \<and> index CountryMap (JStr ''Vietnam'') \<noteq> JUndefined
   \<and> index IndicatorMap (JStr ''zigZag'') \<noteq> JUndefined"
  using mapping_tables_total declared_examples by blast


section \<open>The lifecycle: one live widget root\<close>

lemma effect_fields:
  "childNodes (effect w s) = childNodes s @ [length (elements s)]"
  "length (elements (effect w s)) = Suc (length (elements s))"
  "cleanups (effect w s) = cleanups s @ [length (elements s)]"
  "dom_log (effect w s) = dom_log s @ [CreateElement (length (elements s)), AppendChild (length (elements s))]"
  "disposed (effect w s) = disposed s"
  "props_now (effect w s) = props_now s"
  "reported (effect w s) = reported s"
  by (simp_all add: effect_def Let_def split: sum.splits)

lemma effect_loading:
  "loading (effect w s) = loading s \<or> loading (effect w s) = loading s @ [length (elements s)]"
  by (simp add: effect_def Let_def split: sum.splits)

lemma fold_remove_fields:
  "elements (fold remove ks s) = elements s"
  "loading (fold remove ks s) = loading s"
  "disposed (fold remove ks s) = disposed s"
  "props_now (fold remove ks s) = props_now s"
  "reported (fold remove ks s) = reported s"
  "rejected (fold remove ks s) = rejected s"
  by (induction ks arbitrary: s) (simp_all add: remove_def)

lemma run_cleanups_fields:
  "elements (run_cleanups s) = elements s"
  "loading (run_cleanups s) = loading s"
  "disposed (run_cleanups s) = disposed s"
  "props_now (run_cleanups s) = props_now s"
  "reported (run_cleanups s) = reported s"
  "rejected (run_cleanups s) = rejected s"
  "cleanups (run_cleanups s) = []"
  by (simp_all add: run_cleanups_def fold_remove_fields)


lemma run_cleanups_none:
  "cleanups s = [] \<Longrightarrow> childNodes (run_cleanups s) = childNodes s"
  "cleanups s = [] \<Longrightarrow> dom_log (run_cleanups s) = dom_log s"
  by (simp_all add: run_cleanups_def)

lemma downloadScript_resume_fields:
  "childNodes (downloadScript_resume r k s) = childNodes s"
  "elements (downloadScript_resume r k s) = elements s"
  "cleanups (downloadScript_resume r k s) = cleanups s"
  "dom_log (downloadScript_resume r k s) = dom_log s"
  "disposed (downloadScript_resume r k s) = disposed s"
  "props_now (downloadScript_resume r k s) = props_now s"
  "loading (downloadScript_resume r k s) = loading s"
  "rejected (downloadScript_resume r k s) = rejected s"
  by (simp_all add: downloadScript_resume_def split: option.splits)



lemma run_snoc: "run w cp (es @ [e]) = step w (run w cp es) e"
  by (simp add: run_def)
















section \<open>The lifecycle: a failed script load\<close>

lemma downloadScript_resume_reported:
  "reported (downloadScript_resume (Inr ()) k s) = reported s"
  "reported (downloadScript_resume (Inl err) k s)
     = reported s @ (case onError (props_now s) of None \<Rightarrow> [] | Some callback \<Rightarrow> [(k, callback, err)])"
  by (simp_all add: downloadScript_resume_def tryCatch_def split: option.splits)

lemma settled_effect:
  assumes "settled s"
  shows "settled (effect w s)"
proof -
  let ?n = "length (elements s)"
  from effect_loading [of w s] show ?thesis
  proof
    assume "loading (effect w s) = loading s"
    with assms show ?thesis
      by (auto simp: settled_def effect_fields)
  next
    assume "loading (effect w s) = loading s @ [?n]"
    with assms show ?thesis
      by (auto simp: settled_def effect_fields)
  qed
qed

lemma settled_run_cleanups: "settled s \<Longrightarrow> settled (run_cleanups s)"
  by (simp add: settled_def run_cleanups_fields)

lemma settled_step:
  assumes "settled s"
  shows "settled (step w s e)"
proof (cases e)
  case (ConfigChange cp)
  have "settled (s\<lparr>props_now := cp\<rparr>)" using assms by (simp add: settled_def)
  then have "settled (run_effect w (s\<lparr>props_now := cp\<rparr>))"
    unfolding run_effect_def by (intro settled_effect settled_run_cleanups)
  with \<open>settled (s\<lparr>props_now := cp\<rparr>)\<close> ConfigChange show ?thesis by simp
next
  case (ScriptLoaded k)
  with assms show ?thesis
    by (auto simp: settled_def downloadScript_resume_fields downloadScript_resume_reported
        distinct_removeAll)
next
  case (ScriptFailed k err)
  with assms show ?thesis
    by (auto simp: settled_def downloadScript_resume_fields downloadScript_resume_reported
        distinct_removeAll split: option.splits)
next
  case Dispose
  with assms show ?thesis
    by (simp add: settled_def run_cleanups_fields)
qed

lemma settled_mount: "settled (mount w cp)"
proof -
  have "settled (initial cp)" by (simp add: settled_def initial_def)
  then show ?thesis
    unfolding mount_def run_effect_def by (intro settled_effect settled_run_cleanups)
qed

lemma settled_run: "settled (run w cp es)"
  by (induction es rule: rev_induct) (simp_all add: run_snoc settled_step, simp add: run_def settled_mount)

lemma reports_of_loading:
  assumes "settled s" and "k \<in> set (loading s)"
  shows "reports_of k s = 0"
proof -
  have "filter (\<lambda>r. fst r = k) (reported s) = []"
    using assms by (auto simp: settled_def filter_empty_conv)
  then show ?thesis by (simp add: reports_of_def)
qed

lemma elements_step_mono: "length (elements s) \<le> length (elements (step w s e))"
  by (cases e)
     (simp_all add: run_effect_def effect_fields run_cleanups_fields downloadScript_resume_fields)

lemma loading_step_old:
  assumes "k \<in> set (loading (step w s e))" and "k < length (elements s)"
  shows "k \<in> set (loading s)"
proof (cases e)
  case (ConfigChange cp)
  show ?thesis
  proof (cases "disposed s")
    case True
    with assms ConfigChange show ?thesis by simp
  next
    case False
    let ?s = "run_cleanups (s\<lparr>props_now := cp\<rparr>)"
    have "loading (effect w ?s) = loading ?s \<or> loading (effect w ?s) = loading ?s @ [length (elements ?s)]"
      by (rule effect_loading)
    with assms False ConfigChange show ?thesis
      by (auto simp: run_effect_def run_cleanups_fields)
  qed
next
  case (ScriptLoaded j)
  with assms show ?thesis
    by (auto simp: downloadScript_resume_fields split: if_splits)
next
  case (ScriptFailed j err)
  with assms show ?thesis
    by (auto simp: downloadScript_resume_fields split: if_splits)
next
  case Dispose
  with assms show ?thesis
    by (simp add: run_cleanups_fields split: if_splits)
qed

lemma reports_of_step_other:
  assumes "k \<notin> set (loading s)"
  shows "reports_of k (step w s e) = reports_of k s"
proof (cases e)
  case (ConfigChange cp)
  then show ?thesis
    by (simp add: reports_of_def run_effect_def effect_fields run_cleanups_fields)
next
  case (ScriptLoaded j)
  then show ?thesis
    by (simp add: reports_of_def downloadScript_resume_reported)
next
  case (ScriptFailed j err)
  with assms show ?thesis
    by (auto simp: reports_of_def downloadScript_resume_reported split: option.splits)
next
  case Dispose
  then show ?thesis
    by (simp add: reports_of_def run_cleanups_fields)
qed

lemma reports_of_final:
  "k \<notin> set (loading s) \<Longrightarrow> k < length (elements s) \<Longrightarrow>
   reports_of k (foldl (step w) s es) = reports_of k s"
proof (induction es arbitrary: s)
  case Nil
  then show ?case by simp
next
  case (Cons e es)
  have "k \<notin> set (loading (step w s e))"
    using Cons.prems loading_step_old by blast
  moreover have "k < length (elements (step w s e))"
    using Cons.prems(2) elements_step_mono [of s w e] by simp
  ultimately have "reports_of k (foldl (step w) (step w s e) es) = reports_of k (step w s e)"
    by (rule Cons.IH)
  then show ?case
    using Cons.prems(1) by (simp add: reports_of_step_other)
qed

text \<open>
  Claim C4.  Let the script load of mount cycle \<open>k\<close> be in flight in a reachable state of any
  component, and let it fail with \<open>err\<close>.  Then \<open>onError\<close>, if the caller supplies one, is
  called with \<open>err\<close> for this cycle, once: there was no report for \<open>k\<close> before, there is one
  after, and no later event adds another.  Without a callback nothing is reported.  The
  failure creates no element and starts no load (no retry), removes no widget root, runs
  no cleanup, and rejects no promise.
\<close>

theorem script_failure_reported_once:
  assumes "k \<in> set (loading (run w cp es))"
  shows "reported (step w (run w cp es) (ScriptFailed k err))
       = reported (run w cp es) @
         (case onError (props_now (run w cp es)) of
            None \<Rightarrow> [] | Some callback \<Rightarrow> [(k, callback, err)])
    \<and> reports_of k (run w cp es) = 0
    \<and> reports_of k (step w (run w cp es) (ScriptFailed k err))
       = (case onError (props_now (run w cp es)) of None \<Rightarrow> 0 | Some callback \<Rightarrow> 1)
    \<and> (\<forall>es'. reports_of k (foldl (step w) (step w (run w cp es) (ScriptFailed k err)) es')
              = reports_of k (step w (run w cp es) (ScriptFailed k err)))
    \<and> childNodes (step w (run w cp es) (ScriptFailed k err)) = childNodes (run w cp es)
    \<and> elements (step w (run w cp es) (ScriptFailed k err)) = elements (run w cp es)
    \<and> dom_log (step w (run w cp es) (ScriptFailed k err)) = dom_log (run w cp es)
    \<and> cleanups (step w (run w cp es) (ScriptFailed k err)) = cleanups (run w cp es)
    \<and> loading (step w (run w cp es) (ScriptFailed k err)) = removeAll k (loading (run w cp es))
    \<and> rejected (step w (run w cp es) (ScriptFailed k err)) = rejected (run w cp es)"
proof -
  let ?s = "run w cp es"
  let ?s' = "step w ?s (ScriptFailed k err)"
  have st: "settled ?s" by (rule settled_run)
  have zero: "reports_of k ?s = 0"
    using st assms by (rule reports_of_loading)
  have rep: "reported ?s' = reported ?s @
      (case onError (props_now ?s) of None \<Rightarrow> [] | Some callback \<Rightarrow> [(k, callback, err)])"
    using assms by (simp add: downloadScript_resume_reported)
  have count: "reports_of k ?s' = (case onError (props_now ?s) of None \<Rightarrow> 0 | Some callback \<Rightarrow> 1)"
    unfolding reports_of_def rep using zero [unfolded reports_of_def]
    by (simp split: option.splits)
  have load: "loading ?s' = removeAll k (loading ?s)"
    using assms by (simp add: downloadScript_resume_fields)
  have "k < length (elements ?s)"
    using st assms by (simp add: settled_def)
  then have "k < length (elements ?s')"
    using elements_step_mono [of ?s w "ScriptFailed k err"] by simp
  moreover have "k \<notin> set (loading ?s')"
    unfolding load by simp
  ultimately have final: "\<forall>es'. reports_of k (foldl (step w) ?s' es') = reports_of k ?s'"
    by (simp add: reports_of_final)
  show ?thesis
    using assms rep zero count final load
    by (simp add: downloadScript_resume_fields)
qed

lemma MiniChart_mount_loading: "loading (run MiniChart aapl []) = [0]"
  by (simp add: run_def mount_def run_effect_def run_cleanups_def initial_def effect_def Let_def
      MiniChart_def)

lemma MiniChart_mount_onError: "onError (props_now (run MiniChart aapl [])) = Some 7"
  by (simp add: run_def mount_def run_effect_def run_cleanups_fields effect_fields initial_def
      aapl_def)

theorem script_failure_reported_once_witness:
  "reported (step MiniChart (run MiniChart aapl []) (ScriptFailed 0 (Error ''blocked'')))
     = [(0, 7, Error ''blocked'')]
   \<and> elements (step MiniChart (run MiniChart aapl []) (ScriptFailed 0 (Error ''blocked'')))
     = elements (run MiniChart aapl [])
   \<and> childNodes (step MiniChart (run MiniChart aapl []) (ScriptFailed 0 (Error ''blocked''))) = [0]"
proof -
  have "0 \<in> set (loading (run MiniChart aapl []))"
    by (simp add: MiniChart_mount_loading)
  from script_failure_reported_once [OF this, of "Error ''blocked''"]
  have "reported (step MiniChart (run MiniChart aapl []) (ScriptFailed 0 (Error ''blocked'')))
       = reported (run MiniChart aapl []) @ [(0, 7, Error ''blocked'')]"
    and "elements (step MiniChart (run MiniChart aapl []) (ScriptFailed 0 (Error ''blocked'')))
       = elements (run MiniChart aapl [])"
    and "childNodes (step MiniChart (run MiniChart aapl []) (ScriptFailed 0 (Error ''blocked'')))
       = childNodes (run MiniChart aapl [])"
    by (simp_all add: MiniChart_mount_onError)
  moreover have "reported (run MiniChart aapl []) = []"
    by (simp add: run_def mount_def run_effect_def run_cleanups_fields effect_fields initial_def)
  moreover have "childNodes (run MiniChart aapl []) = [0]"
    by (simp add: run_def mount_def run_effect_def run_cleanups_none effect_fields
        run_cleanups_fields initial_def)
  ultimately show ?thesis by simp
qed

end
